theory Spec2Isabelle
  imports Main
begin

section \<open>Python library functions used by the bot\<close>

text \<open>
  The handlers parse user input with \<^verbatim>\<open>str.split\<close>, \<^verbatim>\<open>int\<close> and
  \<^verbatim>\<open>datetime.strptime(s, "%H:%M")\<close>, and build store paths with \<^verbatim>\<open>str(user_id)\<close>.
  A Python \<^verbatim>\<open>str\<close> is a sequence of Unicode code points, and all three functions
  look at the Unicode class of a character: a text is the list of its code points. A
  raised \<^verbatim>\<open>ValueError\<close> is the value \<^term>\<open>None\<close>.
\<close>

datatype error =
  ValueError | TypeError | NameError | AttributeError | IndexError | OverflowError
  | ConflictingIdError | JobLookupError | JobStoreError | StoreError | TransportError

text \<open>
  A handler either returns, or an exception leaves it; in both cases the effects made
  so far stay, so both carry the state reached.
\<close>

datatype 'a outcome = Returned 'a | Raised error 'a

fun outcome_state :: "'a outcome \<Rightarrow> 'a" where
  "outcome_state (Returned s) = s"
| "outcome_state (Raised e s) = s"

type_synonym pystr = "nat list"

text \<open>The text of a literal of the source, which is ASCII throughout.\<close>

definition ascii :: "string \<Rightarrow> pystr" where
  "ascii s = map of_char s"

declare ascii_def [simp]

subsection \<open>Character classes\<close>

text \<open>
  The characters of general category Nd (decimal digit) come in runs of ten, each run
  holding the digits 0 to 9 in order; these are the first code points of the runs
  (Unicode 14, the tables of CPython 3.11). \<^verbatim>\<open>int\<close> and the \<^verbatim>\<open>\d\<close> of the
  \<^verbatim>\<open>re\<close> module both accept exactly these characters.
\<close>

definition decimal_runs :: "nat list" where
  "decimal_runs =
     [48, 1632, 1776, 1984, 2406, 2534, 2662, 2790, 2918, 3046, 3174, 3302, 3430, 3558,
      3664, 3792, 3872, 4160, 4240, 6112, 6160, 6470, 6608, 6784, 6800, 6992, 7088, 7232,
      7248, 42528, 43216, 43264, 43472, 43504, 43600, 44016, 65296, 66720, 68912, 69734,
      69872, 69942, 70096, 70384, 70736, 70864, 71248, 71360, 71472, 71904, 72016, 72784,
      73040, 73120, 92768, 92864, 93008, 120782, 120792, 120802, 120812, 120822, 123200,
      123632, 125264, 130032]"

definition decimal :: "nat \<Rightarrow> nat option" where
  "decimal c =
     (case find (\<lambda>r. r \<le> c \<and> c < r + 10) decimal_runs of
        None \<Rightarrow> None
      | Some r \<Rightarrow> Some (c - r))"

definition is_decimal :: "nat \<Rightarrow> bool" where
  "is_decimal c = (decimal c \<noteq> None)"

definition decimal_value :: "nat \<Rightarrow> nat" where
  "decimal_value c = (case decimal c of None \<Rightarrow> 0 | Some v \<Rightarrow> v)"

text \<open>\<^verbatim>\<open>str.isspace\<close>, which \<^verbatim>\<open>str.split\<close> separates words by.\<close>

definition is_space :: "nat \<Rightarrow> bool" where
  "is_space c =
     ((9 \<le> c \<and> c \<le> 13) \<or> (28 \<le> c \<and> c \<le> 32) \<or> c = 133 \<or> c = 160 \<or> c = 5760
      \<or> (8192 \<le> c \<and> c \<le> 8202) \<or> c = 8232 \<or> c = 8233 \<or> c = 8239 \<or> c = 8287
      \<or> c = 12288)"

subsection \<open>str.split\<close>

text \<open>
  \<^verbatim>\<open>text.split(maxsplit=1)\<close>: leading whitespace is skipped, the first word ends at
  the next whitespace, and what follows the whitespace after it (if anything) is the
  second element, trailing whitespace included.
\<close>

definition py_split_maxsplit1 :: "pystr \<Rightarrow> pystr list" where
  "py_split_maxsplit1 s =
     (let t = dropWhile is_space s in
      if t = [] then []
      else
        let w = takeWhile (\<lambda>c. \<not> is_space c) t;
            r = dropWhile is_space (dropWhile (\<lambda>c. \<not> is_space c) t)
        in if r = [] then [w] else [w, r])"

text \<open>\<^verbatim>\<open>s.split(sep)\<close> for a one-character separator: every occurrence splits.\<close>

fun py_split_on :: "nat \<Rightarrow> pystr \<Rightarrow> pystr list" where
  "py_split_on sep [] = [[]]"
| "py_split_on sep (c # cs) =
     (if c = sep then [] # py_split_on sep cs
      else (case py_split_on sep cs of
              [] \<Rightarrow> [[c]]
            | p # ps \<Rightarrow> (c # p) # ps))"

subsection \<open>int\<close>

text \<open>
  \<^verbatim>\<open>int(s)\<close> first brings the text to ASCII: a character below 127 stays, any other
  whitespace character becomes a blank, any other decimal digit becomes the ASCII digit
  of its value, and every other character becomes one (\<^verbatim>\<open>?\<close>) that no number contains.
\<close>

definition int_char :: "nat \<Rightarrow> nat" where
  "int_char c =
     (if c < 127 then c
      else if is_space c then 32
      else (case decimal c of None \<Rightarrow> 63 | Some v \<Rightarrow> 48 + v))"

text \<open>
  Then, in base 10: the whitespace of C (TAB to CR and the blank) is stripped from both
  ends, one sign is allowed, then ASCII digits, where single underscores may stand
  between digits.
\<close>

definition is_c_space :: "nat \<Rightarrow> bool" where
  "is_c_space c = ((9 \<le> c \<and> c \<le> 13) \<or> c = 32)"

definition is_digit :: "nat \<Rightarrow> bool" where
  "is_digit c = (48 \<le> c \<and> c \<le> 57)"

definition py_strip :: "pystr \<Rightarrow> pystr" where
  "py_strip s = rev (dropWhile is_c_space (rev (dropWhile is_c_space s)))"

fun digits_acc :: "nat \<Rightarrow> pystr \<Rightarrow> nat option" where
  "digits_acc acc [] = Some acc"
| "digits_acc acc (c # cs) =
     (if is_digit c then digits_acc (10 * acc + (c - 48)) cs
      else if c = 95 then
        (case cs of
           [] \<Rightarrow> None
         | d # _ \<Rightarrow> if is_digit d then digits_acc acc cs else None)
      else None)"

definition py_digits :: "pystr \<Rightarrow> nat option" where
  "py_digits s =
     (case s of
        [] \<Rightarrow> None
      | c # _ \<Rightarrow> if is_digit c then digits_acc 0 s else None)"

definition py_int :: "pystr \<Rightarrow> int option" where
  "py_int s =
     (case py_strip (map int_char s) of
        [] \<Rightarrow> None
      | c # cs \<Rightarrow>
          if c = 43 then map_option int (py_digits cs)
          else if c = 45 then map_option (\<lambda>n. - int n) (py_digits cs)
          else map_option int (py_digits (c # cs)))"

text \<open>\<^verbatim>\<open>hour, minute = map(int, s.split(':'))\<close>: exactly two parts, both integers.\<close>

definition parse_hour_minute :: "pystr \<Rightarrow> (int \<times> int) option" where
  "parse_hour_minute s =
     (case map py_int (py_split_on 58 s) of
        [Some h, Some m] \<Rightarrow> Some (h, m)
      | _ \<Rightarrow> None)"

subsection \<open>str\<close>

text \<open>\<^verbatim>\<open>str(n)\<close> for an integer: ASCII digits, after a minus sign when negative.\<close>

function str_nat :: "nat \<Rightarrow> pystr" where
  "str_nat n = (if n < 10 then [48 + n] else str_nat (n div 10) @ [48 + n mod 10])"
  by pat_completeness auto
termination
  by (relation "measure (\<lambda>n. n)") auto

declare str_nat.simps [simp del]

definition py_str_int :: "int \<Rightarrow> pystr" where
  "py_str_int i = (if i < 0 then 45 # str_nat (nat (- i)) else str_nat (nat i))"

subsection \<open>strptime with the format %H:%M\<close>

text \<open>
  \<^verbatim>\<open>datetime.strptime\<close> turns the format into the regular expression
  \<^verbatim>\<open>(?P<H>2[0-3]|[0-1]\d|\d):(?P<M>[0-5]\d|\d)\<close>, matches it at the start of the text
  (alternatives in this order) and raises \<^verbatim>\<open>ValueError\<close> when nothing matches or when
  text remains after the match. The leading zero of either field is optional. The
  character classes in brackets hold ASCII digits only, \<^verbatim>\<open>\d\<close> is any decimal digit;
  the value of a field is \<^verbatim>\<open>int\<close> of the text it matched.
\<close>

definition match_hour :: "pystr \<Rightarrow> (nat \<times> pystr) list" where
  "match_hour s =
     (case s of
        a # b # r \<Rightarrow>
          (if a = 50 \<and> 48 \<le> b \<and> b \<le> 51 then [(20 + (b - 48), r)] else [])
          @ (if (a = 48 \<or> a = 49) \<and> is_decimal b
             then [(10 * (a - 48) + decimal_value b, r)] else [])
          @ (if is_decimal a then [(decimal_value a, b # r)] else [])
      | [a] \<Rightarrow> (if is_decimal a then [(decimal_value a, [])] else [])
      | [] \<Rightarrow> [])"

definition match_minute :: "pystr \<Rightarrow> (nat \<times> pystr) option" where
  "match_minute s =
     (case s of
        a # b # r \<Rightarrow>
          if 48 \<le> a \<and> a \<le> 53 \<and> is_decimal b then Some (10 * (a - 48) + decimal_value b, r)
          else if is_decimal a then Some (decimal_value a, b # r)
          else None
      | [a] \<Rightarrow> if is_decimal a then Some (decimal_value a, []) else None
      | [] \<Rightarrow> None)"

definition match_after_hour :: "nat \<times> pystr \<Rightarrow> (nat \<times> nat \<times> pystr) option" where
  "match_after_hour hr =
     (case snd hr of
        [] \<Rightarrow> None
      | c # r \<Rightarrow>
          if c = 58 then
            (case match_minute r of
               None \<Rightarrow> None
             | Some (m, rest) \<Rightarrow> Some (fst hr, m, rest))
          else None)"

definition strptime_HM :: "pystr \<Rightarrow> (nat \<times> nat) option" where
  "strptime_HM s =
     (case List.map_filter match_after_hour (match_hour s) of
        [] \<Rightarrow> None
      | (h, m, rest) # _ \<Rightarrow> if rest = [] then Some (h, m) else None)"

subsection \<open>datetime and timedelta\<close>





section \<open>Collaborators: the document store, the scheduler, the transport\<close>

text \<open>
  Python values are dynamically typed: the fields of a stored document and the bound
  arguments of a job are values of one type.
\<close>

datatype pyval = PInt int | PStr pystr | PServerTimestamp | PBot string

type_synonym fs_doc = "string \<rightharpoonup> pyval"

subsection \<open>The Firestore client\<close>

text \<open>
  Documents live under \<^verbatim>\<open>artifacts/{app_id}/users/{uid}\<close>: one settings document
  \<^verbatim>\<open>settings/night_mode\<close> per user document, and one collection \<^verbatim>\<open>scheduled_media\<close>
  per user document. \<^term>\<open>doc_parent\<close> is the id of the user document a scheduled-media
  document hangs under. The store assigns document ids from \<^term>\<open>id_supply\<close>. Each
  client call takes the next entry of \<^term>\<open>faults\<close>: on \<^term>\<open>True\<close> the call raises
  and writes nothing.
\<close>

record media_doc =
  doc_parent :: pystr
  doc_id :: pystr
  doc_fields :: fs_doc

record firestore =
  settings_docs :: "pystr \<rightharpoonup> fs_doc"
  scheduled_media :: "media_doc list"
  id_supply :: "pystr list"
  faults :: "bool list"

definition next_fault :: "firestore \<Rightarrow> bool \<times> firestore" where
  "next_fault fs = (case faults fs of [] \<Rightarrow> (False, fs) | f # r \<Rightarrow> (f, fs\<lparr>faults := r\<rparr>))"

text \<open>\<^verbatim>\<open>doc_ref.get()\<close>: the snapshot, \<^term>\<open>None\<close> when the document does not exist.\<close>

definition doc_get :: "firestore \<Rightarrow> pystr \<Rightarrow> (error + fs_doc option) \<times> firestore" where
  "doc_get fs uid =
     (case next_fault fs of
        (True, fs') \<Rightarrow> (Inl StoreError, fs')
      | (False, fs') \<Rightarrow> (Inr (settings_docs fs' uid), fs'))"

text \<open>
  \<^verbatim>\<open>doc_ref.set(data, merge=True)\<close>: the fields of \<open>data\<close> are written over the stored
  document; the stored fields that \<open>data\<close> does not name stay.
\<close>

definition doc_set_merge :: "firestore \<Rightarrow> pystr \<Rightarrow> fs_doc \<Rightarrow> error option \<times> firestore" where
  "doc_set_merge fs uid data =
     (case next_fault fs of
        (True, fs') \<Rightarrow> (Some StoreError, fs')
      | (False, fs') \<Rightarrow>
          (None, fs'\<lparr>settings_docs := (settings_docs fs')
             (uid \<mapsto> (case settings_docs fs' uid of None \<Rightarrow> data | Some old \<Rightarrow> old ++ data))\<rparr>))"

text \<open>
  \<^verbatim>\<open>collection_ref.add(data)\<close>: a new document under a store-assigned id. The call
  returns the pair \<^verbatim>\<open>(update_time, document_reference)\<close>, a tuple; of the objects
  involved only a document reference has an attribute \<^verbatim>\<open>id\<close>.
\<close>

datatype py_object = Timestamp | DocumentReference pystr | Tuple "py_object list"

definition attr_id :: "py_object \<Rightarrow> error + pystr" where
  "attr_id obj = (case obj of DocumentReference i \<Rightarrow> Inr i | _ \<Rightarrow> Inl AttributeError)"

definition collection_add :: "firestore \<Rightarrow> pystr \<Rightarrow> fs_doc \<Rightarrow> (error + py_object) \<times> firestore" where
  "collection_add fs uid data =
     (case next_fault fs of
        (True, fs') \<Rightarrow> (Inl StoreError, fs')
      | (False, fs') \<Rightarrow>
          (case id_supply fs' of
             [] \<Rightarrow> (Inl StoreError, fs')
           | i # rest \<Rightarrow>
               (Inr (Tuple [Timestamp, DocumentReference i]),
                fs'\<lparr>scheduled_media := scheduled_media fs'
                       @ [\<lparr>doc_parent = uid, doc_id = i, doc_fields = data\<rparr>],
                    id_supply := rest\<rparr>)))"

text \<open>\<^verbatim>\<open>collection_ref.get()\<close>: the documents of one user's collection.\<close>

definition collection_get :: "firestore \<Rightarrow> pystr \<Rightarrow> (error + media_doc list) \<times> firestore" where
  "collection_get fs uid =
     (case next_fault fs of
        (True, fs') \<Rightarrow> (Inl StoreError, fs')
      | (False, fs') \<Rightarrow> (Inr (filter (\<lambda>d. doc_parent d = uid) (scheduled_media fs')), fs'))"

text \<open>\<^verbatim>\<open>doc_ref.delete()\<close>: deleting a document that does not exist succeeds.\<close>

definition doc_delete :: "firestore \<Rightarrow> pystr \<Rightarrow> pystr \<Rightarrow> error option \<times> firestore" where
  "doc_delete fs uid media_id =
     (case next_fault fs of
        (True, fs') \<Rightarrow> (Some StoreError, fs')
      | (False, fs') \<Rightarrow>
          (None, fs'\<lparr>scheduled_media :=
             filter (\<lambda>d. \<not> (doc_parent d = uid \<and> doc_id d = media_id)) (scheduled_media fs')\<rparr>))"

text \<open>\<^verbatim>\<open>db.collection_group("scheduled_media").stream()\<close>: every user's documents.\<close>

definition collection_group_stream :: "firestore \<Rightarrow> (error + media_doc list) \<times> firestore" where
  "collection_group_stream fs =
     (case next_fault fs of
        (True, fs') \<Rightarrow> (Inl StoreError, fs')
      | (False, fs') \<Rightarrow> (Inr (scheduled_media fs'), fs'))"

subsection \<open>The scheduler (APScheduler)\<close>

text \<open>
  A job has an id, a trigger, the function to call and its bound arguments. A cron
  trigger fires daily at hour:minute, second 0, UTC; a date trigger fires once at an
  instant.
\<close>

datatype trigger = Cron int int | Date int

datatype job_func = Send_scheduled_media_job | Delete_message_job

record job =
  job_id :: pystr
  job_trigger :: trigger
  job_func :: job_func
  job_args :: "pyval list"

text \<open>
  A scheduler is created stopped and runs once \<^verbatim>\<open>start()\<close> was called. While it is
  stopped, added jobs wait in \<^term>\<open>pending\<close>, each with its \<open>replace_existing\<close> flag,
  in the order of the calls; once it runs, jobs live in the job store \<^term>\<open>jobs\<close>,
  which keeps the order in which ids were first added. \<^term>\<open>removal_faults\<close> says
  whether the job store raises on the coming removals, as \<^term>\<open>faults\<close> does for the
  document store.
\<close>

record scheduler =
  running :: bool
  jobs :: "job list"
  pending :: "(job \<times> bool) list"
  removal_faults :: "bool list"

text \<open>The cron trigger refuses fields out of range with \<^verbatim>\<open>ValueError\<close>.\<close>

definition cron_trigger :: "int \<Rightarrow> int \<Rightarrow> error + trigger" where
  "cron_trigger hour minute =
     (if 0 \<le> hour \<and> hour \<le> 23 \<and> 0 \<le> minute \<and> minute \<le> 59 then Inr (Cron hour minute)
      else Inl ValueError)"

text \<open>
  \<^verbatim>\<open>get_job(id)\<close>: a stopped scheduler looks among the pending jobs, a running one in
  the job store.
\<close>

definition get_job :: "scheduler \<Rightarrow> pystr \<Rightarrow> job option" where
  "get_job s jid =
     (if running s then find (\<lambda>j. job_id j = jid) (jobs s)
      else map_option fst (find (\<lambda>p. job_id (fst p) = jid) (pending s)))"

text \<open>
  \<^verbatim>\<open>add_job(..., id=..., replace_existing=...)\<close> on a running scheduler: a job whose
  id is in the store is refused with \<^verbatim>\<open>ConflictingIdError\<close> unless
  \<open>replace_existing\<close> is set; then it takes the place of the old one. A job with a
  new id goes to the end of the store. On a stopped scheduler the job is appended to the
  pending ones, whatever its id.
\<close>

definition replace_or_append :: "job \<Rightarrow> job list \<Rightarrow> job list" where
  "replace_or_append j js =
     (if job_id j \<in> set (map job_id js) then map (\<lambda>k. if job_id k = job_id j then j else k) js
      else js @ [j])"

definition add_job :: "scheduler \<Rightarrow> job \<Rightarrow> bool \<Rightarrow> error + scheduler" where
  "add_job s j replace_existing =
     (if running s then
        (if job_id j \<in> set (map job_id (jobs s)) \<and> \<not> replace_existing then Inl ConflictingIdError
         else Inr (s\<lparr>jobs := replace_or_append j (jobs s)\<rparr>))
      else Inr (s\<lparr>pending := pending s @ [(j, replace_existing)]\<rparr>))"

text \<open>
  \<^verbatim>\<open>remove_job(id)\<close> raises \<^verbatim>\<open>JobLookupError\<close> when no job has the id. A stopped
  scheduler drops the first pending job with the id, and does not reach the job store.
\<close>

fun remove_first :: "('a \<Rightarrow> bool) \<Rightarrow> 'a list \<Rightarrow> 'a list" where
  "remove_first P [] = []"
| "remove_first P (x # xs) = (if P x then xs else x # remove_first P xs)"

definition remove_job :: "scheduler \<Rightarrow> pystr \<Rightarrow> error option \<times> scheduler" where
  "remove_job s jid =
     (if running s then
        (case removal_faults s of
           True # r \<Rightarrow> (Some JobStoreError, s\<lparr>removal_faults := r\<rparr>)
         | _ \<Rightarrow>
             (if get_job s jid = None
              then (Some JobLookupError, s\<lparr>removal_faults := tl (removal_faults s)\<rparr>)
              else (None, s\<lparr>jobs := filter (\<lambda>j. job_id j \<noteq> jid) (jobs s),
                             removal_faults := tl (removal_faults s)\<rparr>)))
      else
        (if get_job s jid = None then (Some JobLookupError, s)
         else (None, s\<lparr>pending := remove_first (\<lambda>p. job_id (fst p) = jid) (pending s)\<rparr>)))"

subsection \<open>The transport (the Telegram bot)\<close>

text \<open>
  What the bot was asked to send and to delete, in order; \<^term>\<open>transport_faults\<close>
  says whether the coming calls raise. A method call on a value that is not a bot is an
  \<^verbatim>\<open>AttributeError\<close>.
\<close>

record transport =
  sent :: "(string \<times> pyval \<times> pyval) list"
  deleted :: "(pyval \<times> pyval) list"
  transport_faults :: "bool list"

definition bot_send :: "string \<Rightarrow> pyval \<Rightarrow> pyval \<Rightarrow> pyval \<Rightarrow> transport \<Rightarrow> error option \<times> transport" where
  "bot_send method bot_instance chat_id media_file_id t =
     (case bot_instance of
        PBot _ \<Rightarrow>
          (case transport_faults t of
             True # r \<Rightarrow> (Some TransportError, t\<lparr>transport_faults := r\<rparr>)
           | _ \<Rightarrow> (None, t\<lparr>sent := sent t @ [(method, chat_id, media_file_id)],
                            transport_faults := tl (transport_faults t)\<rparr>))
      | _ \<Rightarrow> (Some AttributeError, t))"

definition bot_delete_message :: "pyval \<Rightarrow> pyval \<Rightarrow> pyval \<Rightarrow> transport \<Rightarrow> error option \<times> transport" where
  "bot_delete_message bot_instance chat_id message_id t =
     (case bot_instance of
        PBot _ \<Rightarrow>
          (case transport_faults t of
             True # r \<Rightarrow> (Some TransportError, t\<lparr>transport_faults := r\<rparr>)
           | _ \<Rightarrow> (None, t\<lparr>deleted := deleted t @ [(chat_id, message_id)],
                            transport_faults := tl (transport_faults t)\<rparr>))
      | _ \<Rightarrow> (Some AttributeError, t))"

section \<open>db\_manager.py\<close>

text \<open>
  \<^verbatim>\<open>config.get_firestore_db()\<close> is \<^term>\<open>None\<close> when no client was initialised. Every
  function returns its default in that case, and catches whatever the client call
  raises; the logging calls of this module are not recorded.
\<close>

definition get_user_settings :: "firestore option \<Rightarrow> int \<Rightarrow> fs_doc \<times> firestore option" where
  "get_user_settings db user_id =
     (case db of
        None \<Rightarrow> (Map.empty, None)
      | Some fs \<Rightarrow>
          (case doc_get fs (py_str_int user_id) of
             (Inl e, fs') \<Rightarrow> (Map.empty, Some fs')
           | (Inr None, fs') \<Rightarrow> (Map.empty, Some fs')
           | (Inr (Some d), fs') \<Rightarrow> (d, Some fs')))"

definition update_user_settings :: "firestore option \<Rightarrow> int \<Rightarrow> fs_doc \<Rightarrow> firestore option" where
  "update_user_settings db user_id settings =
     (case db of
        None \<Rightarrow> None
      | Some fs \<Rightarrow> Some (snd (doc_set_merge fs (py_str_int user_id) settings)))"

definition new_media_fields :: "int \<Rightarrow> int \<Rightarrow> int \<Rightarrow> pystr \<Rightarrow> pystr \<Rightarrow> pystr \<Rightarrow> fs_doc" where
  "new_media_fields user_id chat_id message_id media_file_id media_type schedule_time =
     [''chat_id'' \<mapsto> PInt chat_id,
      ''message_id'' \<mapsto> PInt message_id,
      ''media_file_id'' \<mapsto> PStr media_file_id,
      ''media_type'' \<mapsto> PStr media_type,
      ''schedule_time'' \<mapsto> PStr schedule_time,
      ''user_id'' \<mapsto> PInt user_id,
      ''created_at'' \<mapsto> PServerTimestamp]"

text \<open>
  The function binds the result of \<^verbatim>\<open>add\<close> to \<^verbatim>\<open>doc_ref\<close> and reads
  \<^verbatim>\<open>doc_ref.id\<close> inside the \<^verbatim>\<open>try\<close>; when that read raises, the document is
  already written.
\<close>

definition add_scheduled_media ::
  "firestore option \<Rightarrow> int \<Rightarrow> int \<Rightarrow> int \<Rightarrow> pystr \<Rightarrow> pystr \<Rightarrow> pystr \<Rightarrow> pystr \<times> firestore option" where
  "add_scheduled_media db user_id chat_id message_id media_file_id media_type schedule_time =
     (case db of
        None \<Rightarrow> ([], None)
      | Some fs \<Rightarrow>
          (case collection_add fs (py_str_int user_id)
                  (new_media_fields user_id chat_id message_id media_file_id media_type schedule_time) of
             (Inl e, fs') \<Rightarrow> ([], Some fs')
           | (Inr doc_ref, fs') \<Rightarrow>
               (case attr_id doc_ref of
                  Inl e \<Rightarrow> ([], Some fs')
                | Inr i \<Rightarrow> (i, Some fs'))))"

text \<open>
  An item of the result is \<^verbatim>\<open>{**doc.to_dict(), "id": doc.id}\<close>; it is kept as the
  document, whose \<^term>\<open>doc_id\<close> is what \<^verbatim>\<open>item['id']\<close> reads.
\<close>

definition get_all_scheduled_media :: "firestore option \<Rightarrow> int \<Rightarrow> media_doc list \<times> firestore option" where
  "get_all_scheduled_media db user_id =
     (case db of
        None \<Rightarrow> ([], None)
      | Some fs \<Rightarrow>
          (case collection_get fs (py_str_int user_id) of
             (Inl e, fs') \<Rightarrow> ([], Some fs')
           | (Inr docs, fs') \<Rightarrow> (docs, Some fs')))"

definition delete_scheduled_media :: "firestore option \<Rightarrow> int \<Rightarrow> pystr \<Rightarrow> firestore option" where
  "delete_scheduled_media db user_id media_id =
     (case db of
        None \<Rightarrow> None
      | Some fs \<Rightarrow> Some (snd (doc_delete fs (py_str_int user_id) media_id)))"

section \<open>The state the functions act on\<close>

datatype reply =
    UsageSetDeleteTimer | NeedPositiveMinutes | InvalidNumber | DeleteTimerSet int
  | DeleteTimerCancelled | NoActiveDeleteTimer
  | NoActiveTimerForChat | WillBeDeleted int
  | UsageScheduleMedia | ScheduleTimeAccepted pystr | InvalidTimeFormat
  | SomethingWentWrong | UnsupportedMedia | MediaScheduled pystr pystr | DatabaseError
  | NotFoundForUser pystr | CancelledAndRemoved pystr | FailedToCancel error

datatype log_entry =
    LogDeleted pyval pyval | LogDeleteFailed pyval pyval error
  | LogSent pyval pyval | LogSendFailed pyval pyval
  | LogUnknownMediaType pyval | LogSendError pyval pyval pyval error
  | LogScheduledDeletion int int int | LogRemovedJob pystr | LogCancelError pystr error
  | LogNoDatabase | LogLoading | LogRescheduled pystr int pyval | LogIncomplete pystr
  | LogInvalidUserOrTime pystr | LogRescheduleError pystr error | LogLoadError error
  | LogFinished nat

text \<open>
  \<^term>\<open>db\<close> is \<^verbatim>\<open>config.get_firestore_db()\<close>, \<^term>\<open>scheduler\<close> the module-level scheduler
  of handlers.py, \<^term>\<open>replies\<close> what was answered to the user, \<^term>\<open>log\<close> the log
  lines written. handlers.py creates its scheduler with \<^verbatim>\<open>AsyncIOScheduler()\<close> and
  never starts it; the scheduler main.py starts is another object.
\<close>

record world =
  db :: "firestore option"
  scheduler :: scheduler
  transport :: transport
  replies :: "reply list"
  log :: "log_entry list"

definition reply_to :: "reply \<Rightarrow> world \<Rightarrow> world" where
  "reply_to r w = w\<lparr>replies := replies w @ [r]\<rparr>"

definition logger :: "log_entry \<Rightarrow> world \<Rightarrow> world" where
  "logger l w = w\<lparr>log := log w @ [l]\<rparr>"

section \<open>utils.py\<close>

record message =
  msg_from_user_id :: int
  msg_chat_id :: int
  msg_message_id :: int
  msg_text :: pystr
  msg_bot :: string
  msg_sticker :: "pystr option"
  msg_animation :: "pystr option"
  msg_photo :: "pystr list"
  msg_video :: "pystr option"

text \<open>
  Each media attribute of a message is its file id when the message carries that kind;
  a photo comes in several sizes, the largest last.
\<close>

definition get_media_file_id :: "message \<Rightarrow> pystr option \<times> pystr option" where
  "get_media_file_id m =
     (if msg_sticker m \<noteq> None then (msg_sticker m, Some (ascii ''sticker''))
      else if msg_animation m \<noteq> None then (msg_animation m, Some (ascii ''gif''))
      else if msg_photo m \<noteq> [] then (Some (last (msg_photo m)), Some (ascii ''photo''))
      else if msg_video m \<noteq> None then (msg_video m, Some (ascii ''video''))
      else (None, None))"

text \<open>
  A call binds the positional arguments to the four parameters \<open>chat_id\<close>,
  \<open>media_file_id\<close>, \<open>media_type\<close>, \<open>bot_instance\<close>; with any other number of
  arguments the call itself raises \<^verbatim>\<open>TypeError\<close>, before the body (and its
  \<^verbatim>\<open>try\<close>) is entered.
\<close>

definition send_media_by_type :: "pyval list \<Rightarrow> world \<Rightarrow> (error + bool) \<times> world" where
  "send_media_by_type args w =
     (case args of
        [chat_id, media_file_id, media_type, bot_instance] \<Rightarrow>
          (let method =
             (if media_type = PStr (ascii ''sticker'') then Some ''send_sticker''
              else if media_type = PStr (ascii ''gif'') then Some ''send_animation''
              else if media_type = PStr (ascii ''photo'') then Some ''send_photo''
              else if media_type = PStr (ascii ''video'') then Some ''send_video''
              else None)
           in case method of
                None \<Rightarrow> (Inr False, logger (LogUnknownMediaType media_type) w)
              | Some m \<Rightarrow>
                  (case bot_send m bot_instance chat_id media_file_id (transport w) of
                     (None, t') \<Rightarrow> (Inr True, w\<lparr>transport := t'\<rparr>)
                   | (Some e, t') \<Rightarrow>
                       (Inr False,
                        logger (LogSendError media_type media_file_id chat_id e) (w\<lparr>transport := t'\<rparr>))))
      | _ \<Rightarrow> (Inl TypeError, w))"

section \<open>jobs.py\<close>

definition delete_message_job :: "pyval list \<Rightarrow> world \<Rightarrow> world outcome" where
  "delete_message_job args w =
     (case args of
        [bot_instance, chat_id, message_id] \<Rightarrow>
          (case bot_delete_message bot_instance chat_id message_id (transport w) of
             (None, t') \<Rightarrow> Returned (logger (LogDeleted message_id chat_id) (w\<lparr>transport := t'\<rparr>))
           | (Some e, t') \<Rightarrow>
               Returned (logger (LogDeleteFailed message_id chat_id e) (w\<lparr>transport := t'\<rparr>)))
      | _ \<Rightarrow> Raised TypeError w)"

text \<open>
  The job calls \<^verbatim>\<open>utils.send_media_by_type(chat_id, media_file_id, media_type)\<close>: three
  positional arguments, outside any \<^verbatim>\<open>try\<close>.
\<close>

definition send_scheduled_media_job :: "pyval list \<Rightarrow> world \<Rightarrow> world outcome" where
  "send_scheduled_media_job args w =
     (case args of
        [bot_instance, user_id, chat_id, media_file_id, media_type, schedule_id] \<Rightarrow>
          (case send_media_by_type [chat_id, media_file_id, media_type] w of
             (Inl e, w') \<Rightarrow> Raised e w'
           | (Inr success, w') \<Rightarrow>
               (if success then Returned (logger (LogSent schedule_id chat_id) w')
                else Returned (logger (LogSendFailed schedule_id chat_id) w')))
      | _ \<Rightarrow> Raised TypeError w)"

text \<open>Firing a job: the scheduler calls the job's function with the bound arguments.\<close>

definition fire :: "job \<Rightarrow> world \<Rightarrow> world outcome" where
  "fire j w =
     (case job_func j of
        Send_scheduled_media_job \<Rightarrow> send_scheduled_media_job (job_args j) w
      | Delete_message_job \<Rightarrow> delete_message_job (job_args j) w)"

section \<open>handlers.py\<close>

text \<open>
  The conversational state of the user a message comes from: the state set with
  \<^verbatim>\<open>state.set_state\<close> (\<^term>\<open>None\<close> is the idle state) and the data stored with
  \<^verbatim>\<open>state.update_data\<close>. \<^verbatim>\<open>state.clear()\<close> resets both. A handler is modelled as the
  function it defines: it takes the message and the context and returns the context and
  the world it leaves.
\<close>

datatype night_mode_state =
  waiting_for_delete_duration | waiting_for_scheduled_media | waiting_for_schedule_time

record fsm_context =
  fsm_state :: "night_mode_state option"
  fsm_data :: "string \<rightharpoonup> pystr"

definition state_clear :: "fsm_context \<Rightarrow> fsm_context" where
  "state_clear ctx = \<lparr>fsm_state = None, fsm_data = Map.empty\<rparr>"

definition set_delete_timer_command ::
  "message \<Rightarrow> fsm_context \<Rightarrow> world \<Rightarrow> (fsm_context \<times> world) outcome" where
  "set_delete_timer_command m ctx w =
     (let args = py_split_maxsplit1 (msg_text m) in
      if length args < 2 then Returned (ctx, reply_to UsageSetDeleteTimer w)
      else
        (case py_int (args ! 1) of
           None \<Rightarrow> Returned (ctx, reply_to InvalidNumber w)
         | Some duration_minutes \<Rightarrow>
             if duration_minutes \<le> 0 then Returned (ctx, reply_to NeedPositiveMinutes w)
             else
               (case get_user_settings (db w) (msg_from_user_id m) of
                  (settings, db1) \<Rightarrow>
                    let settings' = settings
                          (''delete_timer_minutes'' \<mapsto> PInt duration_minutes,
                           ''delete_timer_active_chat_id'' \<mapsto> PInt (msg_chat_id m));
                        db2 = update_user_settings db1 (msg_from_user_id m) settings'
                    in Returned (ctx\<lparr>fsm_state := Some waiting_for_delete_duration\<rparr>,
                                 reply_to (DeleteTimerSet duration_minutes) (w\<lparr>db := db2\<rparr>)))))"

definition cancel_delete_timer_command ::
  "message \<Rightarrow> fsm_context \<Rightarrow> world \<Rightarrow> (fsm_context \<times> world) outcome" where
  "cancel_delete_timer_command m ctx w =
     (case get_user_settings (db w) (msg_from_user_id m) of
        (settings, db1) \<Rightarrow>
          if settings ''delete_timer_minutes'' \<noteq> None then
            let s1 = settings(''delete_timer_minutes'' := None);
                s2 = (if s1 ''delete_timer_active_chat_id'' \<noteq> None
                      then s1(''delete_timer_active_chat_id'' := None) else s1);
                db2 = update_user_settings db1 (msg_from_user_id m) s2
            in Returned (state_clear ctx, reply_to DeleteTimerCancelled (w\<lparr>db := db2\<rparr>))
          else Returned (ctx, reply_to NoActiveDeleteTimer (w\<lparr>db := db1\<rparr>)))"



definition schedule_media_command ::
  "message \<Rightarrow> fsm_context \<Rightarrow> world \<Rightarrow> (fsm_context \<times> world) outcome" where
  "schedule_media_command m ctx w =
     (let args = py_split_maxsplit1 (msg_text m) in
      if length args < 2 then Returned (ctx, reply_to UsageScheduleMedia w)
      else
        let time_str = args ! 1 in
        (case strptime_HM time_str of
           Some scheduled_time \<Rightarrow>
             Returned (ctx\<lparr>fsm_state := Some waiting_for_scheduled_media,
                            fsm_data := (fsm_data ctx)(''schedule_time_str'' \<mapsto> time_str)\<rparr>,
                       reply_to (ScheduleTimeAccepted time_str) w)
         | None \<Rightarrow> Returned (ctx, reply_to InvalidTimeFormat w)))"

definition send_job_id :: "pystr \<Rightarrow> pystr" where
  "send_job_id scheduled_id = ascii ''send_sch_'' @ scheduled_id"

definition handle_scheduled_media ::
  "message \<Rightarrow> fsm_context \<Rightarrow> world \<Rightarrow> (fsm_context \<times> world) outcome" where
  "handle_scheduled_media m ctx w =
     (case fsm_data ctx ''schedule_time_str'' of
        None \<Rightarrow> Returned (state_clear ctx, reply_to SomethingWentWrong w)
      | Some schedule_time_str \<Rightarrow>
          if schedule_time_str = [] then Returned (state_clear ctx, reply_to SomethingWentWrong w)
          else
            (case get_media_file_id m of
               (Some media_file_id, Some media_type) \<Rightarrow>
                 if media_file_id = [] then Returned (ctx, reply_to UnsupportedMedia w)
                 else
                   (case add_scheduled_media (db w) (msg_from_user_id m) (msg_chat_id m)
                           (msg_message_id m) media_file_id media_type schedule_time_str of
                      (scheduled_id, db1) \<Rightarrow>
                        let w1 = w\<lparr>db := db1\<rparr> in
                        if scheduled_id \<noteq> [] then
                          (case parse_hour_minute schedule_time_str of
                             None \<Rightarrow> Raised ValueError (ctx, w1)
                           | Some (hour, minute) \<Rightarrow>
                               (case cron_trigger hour minute of
                                  Inl e \<Rightarrow> Raised e (ctx, w1)
                                | Inr trig \<Rightarrow>
                                    (case add_job (scheduler w1)
                                            \<lparr>job_id = send_job_id scheduled_id,
                                             job_trigger = trig,
                                             job_func = Send_scheduled_media_job,
                                             job_args = [PBot (msg_bot m), PInt (msg_from_user_id m),
                                                         PInt (msg_chat_id m), PStr media_file_id,
                                                         PStr media_type, PStr scheduled_id]\<rparr>
                                            True of
                                       Inl e \<Rightarrow> Raised e (ctx, w1)
                                     | Inr s' \<Rightarrow>
                                         Returned (state_clear ctx,
                                           reply_to (MediaScheduled schedule_time_str scheduled_id)
                                             (w1\<lparr>scheduler := s'\<rparr>)))))
                        else Returned (state_clear ctx, reply_to DatabaseError w1))
             | _ \<Rightarrow> Returned (ctx, reply_to UnsupportedMedia w)))"

text \<open>
  \<^verbatim>\<open>process_cancel_schedule_id\<close>: the ownership check reads the user's own collection;
  the delete and the job removal stand in one \<^verbatim>\<open>try\<close>, whose handler logs and
  answers with the failure.
\<close>

definition process_cancel_schedule_id :: "message \<Rightarrow> world \<Rightarrow> world outcome" where
  "process_cancel_schedule_id m w =
     (let args = py_split_maxsplit1 (msg_text m) in
      if length args < 2 then Raised IndexError w
      else
        let schedule_id_to_cancel = args ! 1 in
        (case get_all_scheduled_media (db w) (msg_from_user_id m) of
           (scheduled_items, db1) \<Rightarrow>
             let w1 = w\<lparr>db := db1\<rparr> in
             if \<not> list_ex (\<lambda>item. doc_id item = schedule_id_to_cancel) scheduled_items
             then Returned (reply_to (NotFoundForUser schedule_id_to_cancel) w1)
             else
               let w2 = w1\<lparr>db := delete_scheduled_media db1 (msg_from_user_id m) schedule_id_to_cancel\<rparr>;
                   jid = send_job_id schedule_id_to_cancel
               in
                 (case get_job (scheduler w2) jid of
                    None \<Rightarrow> Returned (reply_to (CancelledAndRemoved schedule_id_to_cancel) w2)
                  | Some j \<Rightarrow>
                      (case remove_job (scheduler w2) jid of
                         (None, s') \<Rightarrow>
                           Returned (reply_to (CancelledAndRemoved schedule_id_to_cancel)
                                       (logger (LogRemovedJob jid) (w2\<lparr>scheduler := s'\<rparr>)))
                       | (Some e, s') \<Rightarrow>
                           Returned (reply_to (FailedToCancel e)
                                       (logger (LogCancelError schedule_id_to_cancel e)
                                          (w2\<lparr>scheduler := s'\<rparr>)))))))"

section \<open>main.py\<close>

text \<open>
  The names main.py binds at module level, by its imports and definitions. A name the
  body of a function uses and that is neither local nor bound here (nor a builtin)
  raises \<^verbatim>\<open>NameError\<close> when the line is reached.
\<close>

definition main_globals :: "string list" where
  "main_globals =
     [''asyncio'', ''logging'', ''json'', ''os'', ''Bot'', ''Dispatcher'', ''ParseMode'',
      ''AsyncIOScheduler'', ''firebase_admin'', ''credentials'', ''firestore'', ''config'',
      ''get_all_scheduled_media'', ''get_user_settings'', ''update_user_settings'',
      ''register_handlers'', ''send_scheduled_media_job'', ''get_media_file_id'',
      ''send_media_by_type'', ''logger'', ''initialize_firebase_and_db'',
      ''load_and_reschedule_media'', ''main'']"

text \<open>
  The log line of the inner \<^verbatim>\<open>except\<close> clauses: \<^verbatim>\<open>ValueError\<close> has its own,
  every other exception the general one.
\<close>

definition reschedule_failure :: "pystr \<Rightarrow> error \<Rightarrow> log_entry" where
  "reschedule_failure did e =
     (if e = ValueError then LogInvalidUserOrTime did else LogRescheduleError did e)"

text \<open>
  One turn of the loop over the scanned documents, in the module namespace \<open>globals\<close>.
  The state of the loop is the scheduler, the log and the count of rescheduled jobs.
\<close>

definition reschedule_doc ::
  "string list \<Rightarrow> pyval \<Rightarrow> media_doc \<Rightarrow> scheduler \<times> log_entry list \<times> nat
     \<Rightarrow> scheduler \<times> log_entry list \<times> nat" where
  "reschedule_doc globals bot_instance doc st =
     (case st of (s, lg, n_done) \<Rightarrow>
      (let item = doc_fields doc in
       case py_int (doc_parent doc) of
         None \<Rightarrow> (s, lg @ [reschedule_failure (doc_id doc) ValueError], n_done)
       | Some user_id \<Rightarrow>
           (case (item ''chat_id'', item ''media_file_id'', item ''media_type'', item ''schedule_time'') of
              (Some chat_id, Some media_file_id, Some media_type, Some schedule_time) \<Rightarrow>
                (case schedule_time of
                   PStr t \<Rightarrow>
                     (case parse_hour_minute t of
                        None \<Rightarrow> (s, lg @ [reschedule_failure (doc_id doc) ValueError], n_done)
                      | Some (hour, minute) \<Rightarrow>
                          if ''CronTrigger'' \<notin> set globals
                          then (s, lg @ [reschedule_failure (doc_id doc) NameError], n_done)
                          else
                            (case cron_trigger hour minute of
                               Inl e \<Rightarrow> (s, lg @ [reschedule_failure (doc_id doc) e], n_done)
                             | Inr trig \<Rightarrow>
                                 (case add_job s
                                         \<lparr>job_id = send_job_id (doc_id doc),
                                          job_trigger = trig,
                                          job_func = Send_scheduled_media_job,
                                          job_args = [bot_instance, PInt user_id, chat_id,
                                                      media_file_id, media_type, PStr (doc_id doc)]\<rparr>
                                         True of
                                    Inl e \<Rightarrow> (s, lg @ [reschedule_failure (doc_id doc) e], n_done)
                                  | Inr s' \<Rightarrow>
                                      (s', lg @ [LogRescheduled (doc_id doc) user_id schedule_time],
                                       n_done + 1))))
                 | _ \<Rightarrow> (s, lg @ [reschedule_failure (doc_id doc) AttributeError], n_done))
            | _ \<Rightarrow> (s, lg @ [LogIncomplete (doc_id doc)], n_done))))"

definition load_and_reschedule_media_in ::
  "string list \<Rightarrow> pyval \<Rightarrow> scheduler \<Rightarrow> firestore option \<Rightarrow> scheduler \<times> log_entry list" where
  "load_and_reschedule_media_in globals bot_instance scheduler_instance firestore_db =
     (case firestore_db of
        None \<Rightarrow> (scheduler_instance, [LogNoDatabase])
      | Some fs \<Rightarrow>
          (case fst (collection_group_stream fs) of
             Inl e \<Rightarrow> (scheduler_instance, [LogLoading, LogLoadError e, LogFinished 0])
           | Inr docs \<Rightarrow>
               (case foldl (\<lambda>st doc. reschedule_doc globals bot_instance doc st)
                       (scheduler_instance, [LogLoading], 0) docs of
                  (s, lg, n_done) \<Rightarrow> (s, lg @ [LogFinished n_done]))))"

text \<open>The function as main.py has it: its body runs in main.py's own namespace.\<close>

definition load_and_reschedule_media ::
  "pyval \<Rightarrow> scheduler \<Rightarrow> firestore option \<Rightarrow> scheduler \<times> log_entry list" where
  "load_and_reschedule_media = load_and_reschedule_media_in main_globals"

section \<open>Concrete inputs\<close>

text \<open>
  The inputs the theorems below are run on: user 42 in chat 100, a store that will
  assign the ids \<open>abc123\<close> and \<open>def456\<close>, the scheduler of handlers.py as the
  module creates it (stopped, empty), and a started empty scheduler as
  \<^verbatim>\<open>main\<close> passes one to the reconciliation.
\<close>

definition photo_message :: message where
  "photo_message =
     \<lparr>msg_from_user_id = 42, msg_chat_id = 100, msg_message_id = 7, msg_text = [],
      msg_bot = ''bot'', msg_sticker = None, msg_animation = None,
      msg_photo = [ascii ''small'', ascii ''large''], msg_video = None\<rparr>"

definition text_message :: "int \<Rightarrow> pystr \<Rightarrow> message" where
  "text_message user t =
     \<lparr>msg_from_user_id = user, msg_chat_id = 100, msg_message_id = 8, msg_text = t,
      msg_bot = ''bot'', msg_sticker = None, msg_animation = None,
      msg_photo = [], msg_video = None\<rparr>"

definition empty_store :: firestore where
  "empty_store = \<lparr>settings_docs = Map.empty, scheduled_media = [],
                   id_supply = [ascii ''abc123'', ascii ''def456''], faults = []\<rparr>"

definition empty_scheduler :: scheduler where
  "empty_scheduler = \<lparr>running = False, jobs = [], pending = [], removal_faults = []\<rparr>"

definition started_scheduler :: scheduler where
  "started_scheduler = \<lparr>running = True, jobs = [], pending = [], removal_faults = []\<rparr>"

definition quiet_transport :: transport where
  "quiet_transport = \<lparr>sent = [], deleted = [], transport_faults = []\<rparr>"

definition fresh_world :: world where
  "fresh_world = \<lparr>db = Some empty_store, scheduler = empty_scheduler, transport = quiet_transport,
                   replies = [], log = []\<rparr>"

definition idle :: fsm_context where
  "idle = \<lparr>fsm_state = None, fsm_data = Map.empty\<rparr>"

definition awaiting_0800 :: fsm_context where
  "awaiting_0800 = \<lparr>fsm_state = Some waiting_for_scheduled_media,
                     fsm_data = [''schedule_time_str'' \<mapsto> ascii ''08:00'']\<rparr>"

definition awaiting_930 :: fsm_context where
  "awaiting_930 = \<lparr>fsm_state = Some waiting_for_scheduled_media,
                    fsm_data = [''schedule_time_str'' \<mapsto> ascii ''9:30'']\<rparr>"

definition job_abc123 :: job where
  "job_abc123 =
     \<lparr>job_id = ascii ''send_sch_abc123'', job_trigger = Cron 8 0,
      job_func = Send_scheduled_media_job,
      job_args = [PBot ''bot'', PInt 42, PInt 100, PStr (ascii ''large''), PStr (ascii ''photo''),
                  PStr (ascii ''abc123'')]\<rparr>"

text \<open>
  The store that holds the record \<open>abc123\<close> of user 42 (the photo, at 08:00), and a
  world where the job of that record waits in the scheduler of handlers.py.
\<close>

definition store_abc123 :: firestore where
  "store_abc123 =
     \<lparr>settings_docs = Map.empty,
      scheduled_media =
        [\<lparr>doc_parent = ascii ''42'', doc_id = ascii ''abc123'',
          doc_fields = new_media_fields 42 100 7 (ascii ''large'') (ascii ''photo'') (ascii ''08:00'')\<rparr>],
      id_supply = [ascii ''def456''], faults = []\<rparr>"

definition world_abc123 :: world where
  "world_abc123 =
     \<lparr>db = Some store_abc123,
      scheduler = \<lparr>running = False, jobs = [], pending = [(job_abc123, True)],
                   removal_faults = []\<rparr>,
      transport = quiet_transport, replies = [], log = []\<rparr>"

text \<open>User 42 with the delete timer armed for chat 100, five minutes.\<close>

definition armed_settings :: fs_doc where
  "armed_settings = [''delete_timer_minutes'' \<mapsto> PInt 5, ''delete_timer_active_chat_id'' \<mapsto> PInt 100]"

definition armed_store :: firestore where
  "armed_store = \<lparr>settings_docs = [ascii ''42'' \<mapsto> armed_settings], scheduled_media = [],
                   id_supply = [ascii ''abc123'', ascii ''def456''], faults = []\<rparr>"

definition armed_world :: world where
  "armed_world = \<lparr>db = Some armed_store, scheduler = empty_scheduler, transport = quiet_transport,
                   replies = [], log = []\<rparr>"

definition armed :: fsm_context where
  "armed = \<lparr>fsm_state = Some waiting_for_delete_duration, fsm_data = Map.empty\<rparr>"




text \<open>The store of user 42's record, with its next call raising.\<close>

definition failing_store :: firestore where
  "failing_store = store_abc123\<lparr>faults := [True]\<rparr>"

text \<open>
  That world once with no job and a store whose second call (the delete) raises, and
  once with a running scheduler that holds the job and whose job store raises on the
  removal.
\<close>

definition world_delete_fails :: world where
  "world_delete_fails =
     world_abc123\<lparr>db := Some (store_abc123\<lparr>faults := [False, True]\<rparr>),
                  scheduler := empty_scheduler\<rparr>"

definition world_removal_fails :: world where
  "world_removal_fails =
     world_abc123\<lparr>scheduler := \<lparr>running = True, jobs = [job_abc123], pending = [],
                                 removal_faults = [True]\<rparr>\<rparr>"

text \<open>A sticker that user 42 sends in chat 100.\<close>

definition sticker_message :: "int \<Rightarrow> message" where
  "sticker_message mid =
     \<lparr>msg_from_user_id = 42, msg_chat_id = 100, msg_message_id = mid, msg_text = [],
      msg_bot = ''bot'', msg_sticker = Some (ascii ''sticker-file''), msg_animation = None,
      msg_photo = [], msg_video = None\<rparr>"

section \<open>Notions the claims use\<close>

text \<open>
  The store fails when the client is unavailable or its next call raises.
  \<^term>\<open>stored_data\<close> is what the store holds (the pending faults apart). A store holds
  no data for a user when it works and has neither a settings document nor a
  scheduled-media document of that user.
\<close>

definition store_fails :: "firestore option \<Rightarrow> bool" where
  "store_fails client =
     (case client of
        None \<Rightarrow> True
      | Some fs \<Rightarrow> (case faults fs of [] \<Rightarrow> False | f # _ \<Rightarrow> f))"

definition stored_data ::
  "firestore option \<Rightarrow> ((pystr \<rightharpoonup> fs_doc) \<times> media_doc list \<times> pystr list) option" where
  "stored_data client = map_option (\<lambda>fs. (settings_docs fs, scheduled_media fs, id_supply fs)) client"

definition holds_no_data :: "firestore \<Rightarrow> int \<Rightarrow> bool" where
  "holds_no_data fs user_id =
     (\<not> store_fails (Some fs)
      \<and> settings_docs fs (py_str_int user_id) = None
      \<and> filter (\<lambda>d. doc_parent d = py_str_int user_id) (scheduled_media fs) = [])"

text \<open>A user owns an id when the store holds a scheduled-media document of that id under the user.\<close>

definition owns :: "firestore option \<Rightarrow> int \<Rightarrow> pystr \<Rightarrow> bool" where
  "owns client user_id media_id =
     (case client of
        None \<Rightarrow> False
      | Some fs \<Rightarrow>
          list_ex (\<lambda>d. doc_parent d = py_str_int user_id \<and> doc_id d = media_id) (scheduled_media fs))"

text \<open>
  The next removal raises in the job store: the scheduler runs (a stopped one does not
  reach its job store) and the store is set to raise.
\<close>

definition removal_raises :: "scheduler \<Rightarrow> bool" where
  "removal_raises s = (running s \<and> (case removal_faults s of [] \<Rightarrow> False | f # _ \<Rightarrow> f))"

text \<open>
  The jobs a scheduler holds: those of the job store when it runs, those that wait to
  be taken into the store while it is stopped.
\<close>

definition held_jobs :: "scheduler \<Rightarrow> job list" where
  "held_jobs s = (if running s then jobs s else map fst (pending s))"


text \<open>
  A scanned document is reschedulable in a module namespace when the loop body reaches
  \<open>add_job\<close> for it: the owner id is an integer, the four fields are present, the
  time is a text that parses to an hour and a minute in range, and \<open>CronTrigger\<close> is
  bound. \<^term>\<open>add_id\<close> is what one turn of the loop does to the list of job ids.
\<close>

definition reschedulable :: "string list \<Rightarrow> media_doc \<Rightarrow> bool" where
  "reschedulable globals doc =
     (case py_int (doc_parent doc) of
        None \<Rightarrow> False
      | Some user_id \<Rightarrow>
          (case (doc_fields doc ''chat_id'', doc_fields doc ''media_file_id'',
                 doc_fields doc ''media_type'', doc_fields doc ''schedule_time'') of
             (Some chat_id, Some media_file_id, Some media_type, Some (PStr t)) \<Rightarrow>
               (case parse_hour_minute t of
                  None \<Rightarrow> False
                | Some (hour, minute) \<Rightarrow>
                    ''CronTrigger'' \<in> set globals
                    \<and> 0 \<le> hour \<and> hour \<le> 23 \<and> 0 \<le> minute \<and> minute \<le> 59)
           | _ \<Rightarrow> False))"

definition add_id :: "string list \<Rightarrow> pystr list \<Rightarrow> media_doc \<Rightarrow> pystr list" where
  "add_id globals ids doc =
     (if reschedulable globals doc \<and> send_job_id (doc_id doc) \<notin> set ids
      then ids @ [send_job_id (doc_id doc)] else ids)"

text \<open>
  The words of the specification, "strict 24-hour HH:MM": two ASCII digits, a colon,
  two ASCII digits, the hour at most 23 and the minute at most 59.
\<close>

definition strict_HHMM :: "pystr \<Rightarrow> bool" where
  "strict_HHMM s =
     (case s of
        [a, b, c, d, e] \<Rightarrow>
          is_digit a \<and> is_digit b \<and> c = 58 \<and> is_digit d \<and> is_digit e
          \<and> 10 * (a - 48) + (b - 48) \<le> 23 \<and> 10 * (d - 48) + (e - 48) \<le> 59
      | _ \<Rightarrow> False)"

section \<open>Facts about the model\<close>

subsection \<open>Digits, and what strptime accepts\<close>

lemma decimal_ascii: "is_digit c \<Longrightarrow> decimal c = Some (c - 48)"
  by (simp add: is_digit_def decimal_def decimal_runs_def)

lemma is_decimal_ascii: "is_digit c \<Longrightarrow> is_decimal c"
  by (simp add: is_decimal_def decimal_ascii)

lemma decimal_value_ascii: "is_digit c \<Longrightarrow> decimal_value c = c - 48"
  by (simp add: decimal_value_def decimal_ascii)

lemma strptime_first_candidate:
  assumes "match_hour t = (h, 58 # r) # xs" "match_minute r = Some (m, [])"
  shows "strptime_HM t = Some (h, m)"
  using assms by (simp add: strptime_HM_def List.map_filter_def match_after_hour_def)

lemma strict_HHMM_accepted:
  assumes "strict_HHMM t"
  shows "\<exists>h m. strptime_HM t = Some (h, m)"
proof -
  from assms obtain a b d e where t: "t = [a, b, 58, d, e]"
    and dig: "is_digit a" "is_digit b" "is_digit d" "is_digit e"
    and hb: "10 * (a - 48) + (b - 48) \<le> 23" and mb: "10 * (d - 48) + (e - 48) \<le> 59"
    by (auto simp: strict_HHMM_def split: list.splits)
  from mb dig(3) have "48 \<le> d" "d \<le> 53" by (simp_all add: is_digit_def)
  with dig(4) have mm: "match_minute [d, e] = Some (10 * (d - 48) + decimal_value e, [])"
    by (simp add: match_minute_def is_decimal_ascii)
  from hb dig(1,2) consider (zero) "a = 48" | (one) "a = 49" | (two) "a = 50" "48 \<le> b" "b \<le> 51"
    unfolding is_digit_def by linarith
  then have "\<exists>h xs. match_hour t = (h, 58 # [d, e]) # xs"
  proof cases
    case zero
    with dig(2) t show ?thesis by (simp add: match_hour_def is_decimal_ascii)
  next
    case one
    with dig(2) t show ?thesis by (simp add: match_hour_def is_decimal_ascii)
  next
    case two
    with t show ?thesis by (simp add: match_hour_def)
  qed
  then obtain h xs where "match_hour t = (h, 58 # [d, e]) # xs" by blast
  from strptime_first_candidate [OF this mm] show ?thesis by blast
qed

subsection \<open>The scheduler\<close>

lemma add_job_running:
  "running s \<Longrightarrow> add_job s j True = Inr (s\<lparr>jobs := replace_or_append j (jobs s)\<rparr>)"
  by (simp add: add_job_def)

lemma add_job_stopped:
  "\<not> running s \<Longrightarrow> add_job s j r = Inr (s\<lparr>pending := pending s @ [(j, r)]\<rparr>)"
  by (simp add: add_job_def)

lemma job_ids_replace_or_append:
  "map job_id (replace_or_append j js) =
     (if job_id j \<in> set (map job_id js) then map job_id js else map job_id js @ [job_id j])"
  by (induction js) (auto simp: replace_or_append_def)



lemma remove_first_none: "\<forall>x \<in> set xs. \<not> P x \<Longrightarrow> remove_first P xs = xs"
  by (induction xs) auto

lemma get_job_None_filter:
  "get_job s jid = None \<Longrightarrow> running s \<Longrightarrow> filter (\<lambda>j. job_id j \<noteq> jid) (jobs s) = jobs s"
  by (auto simp: get_job_def find_None_iff filter_id_conv)

lemma get_job_None_remove_first:
  "get_job s jid = None \<Longrightarrow> \<not> running s \<Longrightarrow>
   remove_first (\<lambda>p. job_id (fst p) = jid) (pending s) = pending s"
  by (rule remove_first_none) (auto simp: get_job_def find_None_iff)

subsection \<open>Evaluations on the concrete inputs\<close>

lemma text_message_sel [simp]:
  "msg_text (text_message u t) = t" "msg_from_user_id (text_message u t) = u"
  "msg_chat_id (text_message u t) = 100" "msg_message_id (text_message u t) = 8"
  by (simp_all add: text_message_def)

lemma sticker_message_sel [simp]:
  "msg_from_user_id (sticker_message i) = 42" "msg_chat_id (sticker_message i) = 100"
  "msg_message_id (sticker_message i) = i" "msg_bot (sticker_message i) = ''bot''"
  by (simp_all add: sticker_message_def)

lemma str_42: "py_str_int 42 = ascii ''42''"
  by (simp add: py_str_int_def str_nat.simps)

lemma str_43: "py_str_int 43 = ascii ''43''"
  by (simp add: py_str_int_def str_nat.simps)

lemma py_int_42: "py_int (ascii ''42'') = Some 42"
  by (simp add: py_int_def int_char_def py_strip_def py_digits_def is_c_space_def is_digit_def)

lemma parse_0800: "parse_hour_minute (ascii ''08:00'') = Some (8, 0)"
  by (simp add: parse_hour_minute_def py_int_def int_char_def py_strip_def py_digits_def
      is_c_space_def is_digit_def)

lemma split_schedule_930:
  "py_split_maxsplit1 (ascii ''/schedule_media 9:30'') = [ascii ''/schedule_media'', ascii ''9:30'']"
  by (simp add: py_split_maxsplit1_def is_space_def)

lemma split_schedule_2500:
  "py_split_maxsplit1 (ascii ''/schedule_media 25:00'') = [ascii ''/schedule_media'', ascii ''25:00'']"
  by (simp add: py_split_maxsplit1_def is_space_def)

lemma split_cancel_abc123:
  "py_split_maxsplit1 (ascii ''/cancel_schedule abc123'') = [ascii ''/cancel_schedule'', ascii ''abc123'']"
  by (simp add: py_split_maxsplit1_def is_space_def)

lemma cancel_abc123_args:
  "py_split_maxsplit1 (msg_text (text_message 42 (ascii ''/cancel_schedule abc123'')))
     = [ascii ''/cancel_schedule'', ascii ''abc123'']"
  using split_cancel_abc123 by simp



lemma strptime_930: "strptime_HM (ascii ''9:30'') = Some (9, 30)"
  by (simp add: strptime_HM_def match_hour_def match_minute_def match_after_hour_def
      List.map_filter_def is_decimal_def decimal_value_def decimal_def decimal_runs_def)

lemma strptime_rejects:
  "strptime_HM (ascii ''25:00'') = None" "strptime_HM (ascii ''abc'') = None"
  "strptime_HM (ascii ''24:00'') = None" "strptime_HM (ascii ''12:60'') = None"
  "strptime_HM (ascii ''08:00:00'') = None" "strptime_HM [] = None"
  by (simp_all add: strptime_HM_def match_hour_def match_minute_def match_after_hour_def
      List.map_filter_def is_decimal_def decimal_value_def decimal_def decimal_runs_def)

text \<open>
  A digit that is not ASCII is accepted where the expression has \<^verbatim>\<open>\d\<close>, and not
  where it names the digit: with ARABIC-INDIC DIGIT TWO (code point 1634) for the
  second digit of the hour, \<open>12:30\<close> is a time and \<open>22:30\<close> is not.
\<close>

lemma strptime_other_digits:
  "strptime_HM [49, 1634, 58, 51, 48] = Some (12, 30)" "strptime_HM [50, 1634, 58, 51, 48] = None"
  "parse_hour_minute [49, 1634, 58, 51, 48] = Some (12, 30)"
  by (simp_all add: strptime_HM_def match_hour_def match_minute_def match_after_hour_def
      List.map_filter_def is_decimal_def decimal_value_def decimal_def decimal_runs_def
      parse_hour_minute_def py_int_def int_char_def py_strip_def py_digits_def
      is_c_space_def is_digit_def is_space_def)

subsection \<open>The loop of the startup scan\<close>

lemma CronTrigger_unbound: "''CronTrigger'' \<notin> set main_globals"
  by (simp add: main_globals_def)

lemma reschedule_doc_main_scheduler:
  "fst (reschedule_doc main_globals b d st) = fst st"
  by (cases st)
     (simp add: reschedule_doc_def CronTrigger_unbound Let_def
        split: option.splits pyval.splits prod.splits)

lemma foldl_reschedule_main:
  "fst (foldl (\<lambda>st doc. reschedule_doc main_globals b doc st) st docs) = fst st"
  by (induction docs arbitrary: st) (simp_all add: reschedule_doc_main_scheduler)

subsection \<open>The settings document\<close>

lemma merge_removed_keys:
  "d ++ (d(k := None)) = d" "d ++ (d(k := None, k' := None)) = d"
  by (rule ext, simp add: map_add_def split: option.splits)+

lemma doc_set_merge_settings:
  "settings_docs (snd (doc_set_merge fs uid data)) =
     (if fst (next_fault fs) then settings_docs fs
      else (settings_docs fs)(uid \<mapsto> (case settings_docs fs uid of None \<Rightarrow> data | Some old \<Rightarrow> old ++ data)))"
  by (simp add: doc_set_merge_def next_fault_def split: list.splits bool.splits)

lemma next_fault_settings [simp]: "settings_docs (snd (next_fault fs)) = settings_docs fs"
  by (simp add: next_fault_def split: list.splits)

lemma get_user_settings_cases:
  assumes "get_user_settings (Some fs) user_id = (settings, db1)"
  shows "db1 = Some (snd (next_fault fs))
         \<and> (settings = Map.empty \<or> settings_docs fs (py_str_int user_id) = Some settings)"
  using assms
  by (auto simp: get_user_settings_def doc_get_def next_fault_def
      split: list.splits bool.splits option.splits if_splits)

subsection \<open>Store failure\<close>

lemma store_fails_cases:
  assumes "store_fails client"
  obtains (unavailable) "client = None" | (raises) fs r where "client = Some fs" "faults fs = True # r"
  using assms by (auto simp: store_fails_def split: option.splits list.splits)

text \<open>
  \<open>add_scheduled_media\<close> answers with the empty string on every store: what
  \<open>add\<close> returns is a tuple, and reading \<open>id\<close> from it raises inside the \<^verbatim>\<open>try\<close>.
\<close>

lemma add_scheduled_media_returns_empty:
  "fst (add_scheduled_media client user_id chat_id message_id media_file_id media_type schedule_time) = []"
  by (simp add: add_scheduled_media_def collection_add_def attr_id_def next_fault_def
      split: option.splits list.splits bool.splits)

subsection \<open>Listing a user's records\<close>

lemma listed_iff_owns:
  "list_ex (\<lambda>item. doc_id item = media_id) (fst (get_all_scheduled_media client user_id))
     \<Longrightarrow> owns client user_id media_id"
  by (auto simp: owns_def get_all_scheduled_media_def collection_get_def next_fault_def list_ex_iff
      split: option.splits list.splits bool.splits)

lemma get_all_keeps_data:
  "stored_data (snd (get_all_scheduled_media client user_id)) = stored_data client"
  by (auto simp: stored_data_def get_all_scheduled_media_def collection_get_def next_fault_def
      split: option.splits list.splits bool.splits)

subsection \<open>Cancelling an owned record\<close>

lemma owns_listed:
  assumes "owns (Some fs) user_id media_id" "faults fs = []"
  shows "get_all_scheduled_media (Some fs) user_id
           = (filter (\<lambda>d. doc_parent d = py_str_int user_id) (scheduled_media fs), Some fs)"
    and "list_ex (\<lambda>item. doc_id item = media_id)
           (filter (\<lambda>d. doc_parent d = py_str_int user_id) (scheduled_media fs))"
  using assms
  by (auto simp: owns_def get_all_scheduled_media_def collection_get_def next_fault_def list_ex_iff)

lemma delete_removes_record:
  assumes "faults fs = []"
  shows "\<not> owns (delete_scheduled_media (Some fs) user_id media_id) user_id media_id"
  using assms
  by (auto simp: owns_def delete_scheduled_media_def doc_delete_def next_fault_def list_ex_iff)

subsection \<open>Printing and reading an integer\<close>














subsection \<open>Arming a deletion\<close>




subsection \<open>The job ids after the startup scan\<close>

lemma reschedule_doc_running:
  "running (fst (reschedule_doc g b d st)) = running (fst st)"
  by (cases st)
     (auto simp: reschedule_doc_def cron_trigger_def add_job_def Let_def
        split: option.splits pyval.splits prod.splits)

lemma reschedule_doc_stopped:
  "\<not> running (fst st) \<Longrightarrow> jobs (fst (reschedule_doc g b d st)) = jobs (fst st)"
  by (cases st)
     (auto simp: reschedule_doc_def cron_trigger_def add_job_def Let_def
        split: option.splits pyval.splits prod.splits)

lemma reschedule_doc_pending:
  "running (fst st) \<Longrightarrow> pending (fst (reschedule_doc g b d st)) = pending (fst st)"
  by (cases st)
     (auto simp: reschedule_doc_def cron_trigger_def add_job_def Let_def
        split: option.splits pyval.splits prod.splits)

lemma reschedule_doc_ids:
  "running (fst st) \<Longrightarrow>
   map job_id (jobs (fst (reschedule_doc g b d st))) = add_id g (map job_id (jobs (fst st))) d"
  by (cases st)
     (auto simp: reschedule_doc_def add_id_def reschedulable_def cron_trigger_def add_job_running
        job_ids_replace_or_append Let_def
        split: option.splits pyval.splits prod.splits)

lemma foldl_reschedule_running:
  "running (fst (foldl (\<lambda>st doc. reschedule_doc g b doc st) st docs)) = running (fst st)"
  by (induction docs arbitrary: st) (simp_all add: reschedule_doc_running)

lemma foldl_reschedule_stopped:
  "\<not> running (fst st) \<Longrightarrow>
   jobs (fst (foldl (\<lambda>st doc. reschedule_doc g b doc st) st docs)) = jobs (fst st)"
  by (induction docs arbitrary: st) (simp_all add: reschedule_doc_stopped reschedule_doc_running)

lemma foldl_reschedule_pending:
  "running (fst st) \<Longrightarrow>
   pending (fst (foldl (\<lambda>st doc. reschedule_doc g b doc st) st docs)) = pending (fst st)"
  by (induction docs arbitrary: st) (simp_all add: reschedule_doc_pending reschedule_doc_running)

lemma foldl_reschedule_ids:
  "running (fst st) \<Longrightarrow>
   map job_id (jobs (fst (foldl (\<lambda>st doc. reschedule_doc g b doc st) st docs)))
     = foldl (add_id g) (map job_id (jobs (fst st))) docs"
  by (induction docs arbitrary: st) (simp_all add: reschedule_doc_ids reschedule_doc_running)

lemma add_id_set:
  "set (foldl (add_id g) ids docs)
     = set ids \<union> {send_job_id (doc_id d) | d. d \<in> set docs \<and> reschedulable g d}"
  by (induction docs arbitrary: ids) (auto simp: add_id_def)

lemma add_id_saturated:
  assumes "\<And>d. d \<in> set docs \<Longrightarrow> reschedulable g d \<Longrightarrow> send_job_id (doc_id d) \<in> set ids"
  shows "foldl (add_id g) ids docs = ids"
  using assms by (induction docs) (auto simp: add_id_def)

lemma add_id_idem:
  "foldl (add_id g) (foldl (add_id g) ids docs) docs = foldl (add_id g) ids docs"
  by (rule add_id_saturated) (auto simp: add_id_set)

lemma add_id_distinct:
  "distinct ids \<Longrightarrow> distinct (foldl (add_id g) ids docs)"
  by (induction docs arbitrary: ids) (simp_all add: add_id_def)

lemma load_scheduler:
  "fst (load_and_reschedule_media_in g b s client)
     = (case client of
          None \<Rightarrow> s
        | Some fs \<Rightarrow>
            (case fst (collection_group_stream fs) of
               Inl e \<Rightarrow> s
             | Inr docs \<Rightarrow> fst (foldl (\<lambda>st doc. reschedule_doc g b doc st) (s, [LogLoading], 0) docs)))"
  by (simp add: load_and_reschedule_media_in_def split: option.splits sum.splits prod.splits)

lemma load_running:
  "running (fst (load_and_reschedule_media_in g b s client)) = running s"
  by (simp add: load_scheduler foldl_reschedule_running split: option.splits sum.splits)

lemma load_stopped:
  "\<not> running s \<Longrightarrow> jobs (fst (load_and_reschedule_media_in g b s client)) = jobs s"
  by (simp add: load_scheduler foldl_reschedule_stopped split: option.splits sum.splits)

lemma load_pending:
  "running s \<Longrightarrow> pending (fst (load_and_reschedule_media_in g b s client)) = pending s"
  by (simp add: load_scheduler foldl_reschedule_pending split: option.splits sum.splits)

lemma load_ids:
  "running s \<Longrightarrow>
   map job_id (jobs (fst (load_and_reschedule_media_in g b s client)))
     = (case client of
          None \<Rightarrow> map job_id (jobs s)
        | Some fs \<Rightarrow>
            (case fst (collection_group_stream fs) of
               Inl e \<Rightarrow> map job_id (jobs s)
             | Inr docs \<Rightarrow> foldl (add_id g) (map job_id (jobs s)) docs))"
  by (simp add: load_scheduler foldl_reschedule_ids split: option.splits sum.splits)

lemma replace_or_append_ids:
  "set (map job_id (replace_or_append j js)) = insert (job_id j) (set (map job_id js))"
  by (auto simp: job_ids_replace_or_append)

lemma reschedule_doc_held_ids:
  "set (map job_id (held_jobs (fst (reschedule_doc g b d st))))
     = set (map job_id (held_jobs (fst st)))
       \<union> (if reschedulable g d then {send_job_id (doc_id d)} else {})"
proof (cases st)
  case (fields s lg n)
  show ?thesis
  proof (cases "running s")
    case True
    with fields have h: "held_jobs (fst (reschedule_doc g b d st)) = jobs (fst (reschedule_doc g b d st))"
      "held_jobs (fst st) = jobs (fst st)"
      by (simp_all add: held_jobs_def reschedule_doc_running)
    from True fields reschedule_doc_ids [of st g b d] have
      "map job_id (jobs (fst (reschedule_doc g b d st))) = add_id g (map job_id (jobs (fst st))) d"
      by simp
    with h show ?thesis by (auto simp: add_id_def)
  next
    case False
    with fields show ?thesis
      by (auto simp: reschedule_doc_def reschedulable_def cron_trigger_def add_job_stopped
          held_jobs_def Let_def split: option.splits pyval.splits prod.splits)
  qed
qed

lemma foldl_reschedule_held_ids:
  "set (map job_id (held_jobs (fst (foldl (\<lambda>st doc. reschedule_doc g b doc st) st docs))))
     = set (map job_id (held_jobs (fst st)))
       \<union> {send_job_id (doc_id d) | d. d \<in> set docs \<and> reschedulable g d}"
proof (induction docs arbitrary: st)
  case Nil
  show ?case by simp
next
  case (Cons d docs)
  from Cons [of "reschedule_doc g b d st"] reschedule_doc_held_ids [of g b d st]
  show ?case by (auto simp del: set_map)
qed

lemma load_held_ids_twice:
  "set (map job_id (held_jobs (fst (load_and_reschedule_media_in g b
          (fst (load_and_reschedule_media_in g b s client)) client))))
     = set (map job_id (held_jobs (fst (load_and_reschedule_media_in g b s client))))"
proof (cases client)
  case None
  then show ?thesis by (simp add: load_scheduler)
next
  case (Some fs)
  show ?thesis
  proof (cases "fst (collection_group_stream fs)")
    case (Inl e)
    with Some show ?thesis by (simp add: load_scheduler)
  next
    case (Inr docs)
    define s1 where "s1 = fst (foldl (\<lambda>st doc. reschedule_doc g b doc st) (s, [LogLoading], 0) docs)"
    from foldl_reschedule_held_ids [of g b "(s, [LogLoading], 0)" docs]
      foldl_reschedule_held_ids [of g b "(s1, [LogLoading], 0)" docs]
    have "set (map job_id (held_jobs (fst (foldl (\<lambda>st doc. reschedule_doc g b doc st)
                  (s1, [LogLoading], 0) docs))))
          = set (map job_id (held_jobs s1))"
      unfolding s1_def by (auto simp del: set_map)
    with Some Inr show ?thesis
      by (simp add: load_scheduler s1_def del: set_map)
  qed
qed

lemma reschedulable_abc123:
  "reschedulable (''CronTrigger'' # main_globals)
     \<lparr>doc_parent = ascii ''42'', doc_id = ascii ''abc123'',
      doc_fields = new_media_fields 42 100 7 (ascii ''large'') (ascii ''photo'') (ascii ''08:00'')\<rparr>"
  using py_int_42 parse_0800 by (simp add: reschedulable_def new_media_fields_def)

section \<open>The claims\<close>

subsection \<open>C1: scheduling a media message\<close>

text \<open>
  C1 says that, when the store creates the record, \<open>handle_scheduled_media\<close> registers
  the cron job \<open>send_sch_\<close> + id, reports the id and leaves the user idle. The code does
  not: \<open>add_scheduled_media\<close> reads \<open>doc_ref.id\<close> from what \<open>collection_ref.add\<close>
  returned, which is the pair of the update time and the reference; the read raises
  inside the \<^verbatim>\<open>try\<close>, after the record was written, and the function returns the
  empty string. So for every stored time and every supported media message the handler
  answers with the database error and clears the state, and the scheduler is as it was,
  also when the store has created the record.
\<close>

theorem handle_scheduled_media_registers_no_job:
  assumes stored: "fsm_data ctx ''schedule_time_str'' = Some t" "t \<noteq> []"
    and media: "get_media_file_id m = (Some fid, Some ty)" "fid \<noteq> []"
  shows "handle_scheduled_media m ctx w =
           Returned (state_clear ctx,
             reply_to DatabaseError
               (w\<lparr>db := snd (add_scheduled_media (db w) (msg_from_user_id m) (msg_chat_id m)
                               (msg_message_id m) fid ty t)\<rparr>))
         \<and> scheduler (snd (outcome_state (handle_scheduled_media m ctx w))) = scheduler w"
proof -
  obtain sid db' where a: "add_scheduled_media (db w) (msg_from_user_id m) (msg_chat_id m)
                             (msg_message_id m) fid ty t = (sid, db')"
    by (cases "add_scheduled_media (db w) (msg_from_user_id m) (msg_chat_id m)
                 (msg_message_id m) fid ty t") auto
  with add_scheduled_media_returns_empty
    [of "db w" "msg_from_user_id m" "msg_chat_id m" "msg_message_id m" fid ty t]
  have "sid = []" by simp
  with a stored media show ?thesis
    by (simp add: handle_scheduled_media_def reply_to_def)
qed

theorem handle_scheduled_media_registers_no_job_witness:
  "handle_scheduled_media photo_message awaiting_0800 fresh_world =
     Returned (idle, fresh_world\<lparr>db := Some store_abc123, replies := [DatabaseError]\<rparr>)
   \<and> owns (Some store_abc123) 42 (ascii ''abc123'')
   \<and> scheduler (snd (outcome_state (handle_scheduled_media photo_message awaiting_0800 fresh_world)))
       = empty_scheduler"
proof -
  have h1: "fsm_data awaiting_0800 ''schedule_time_str'' = Some (ascii ''08:00'')"
    and h2: "ascii ''08:00'' \<noteq> []"
    by (simp_all add: awaiting_0800_def)
  have h3: "get_media_file_id photo_message = (Some (ascii ''large''), Some (ascii ''photo''))"
    and h4: "ascii ''large'' \<noteq> []"
    by (simp_all add: get_media_file_id_def photo_message_def)
  have written: "snd (add_scheduled_media (db fresh_world) (msg_from_user_id photo_message)
              (msg_chat_id photo_message) (msg_message_id photo_message)
              (ascii ''large'') (ascii ''photo'') (ascii ''08:00'')) = Some store_abc123"
    by (simp add: fresh_world_def photo_message_def add_scheduled_media_def collection_add_def
        attr_id_def next_fault_def empty_store_def store_abc123_def str_42)
  have owned: "owns (Some store_abc123) 42 (ascii ''abc123'')"
    by (simp add: owns_def store_abc123_def str_42)
  from handle_scheduled_media_registers_no_job [OF h1 h2 h3 h4, of fresh_world] written owned
  show ?thesis
    by (simp add: fresh_world_def reply_to_def state_clear_def idle_def)
qed

subsection \<open>C2: the startup scan\<close>

text \<open>
  C2 says that the scan registers the cron job \<open>send_sch_\<close> + id for every complete
  record with a parseable time. The code does not: main.py never imports
  \<open>CronTrigger\<close>, so the line that builds the trigger raises \<^verbatim>\<open>NameError\<close> for
  every such record; the inner handler logs it and the loop goes on. The scheduler is
  the same after the scan as before it, whatever the store holds.
\<close>

theorem load_and_reschedule_media_registers_nothing:
  "fst (load_and_reschedule_media bot_instance scheduler_instance firestore_db) = scheduler_instance"
proof (cases firestore_db)
  case None
  then show ?thesis
    by (simp add: load_and_reschedule_media_def load_and_reschedule_media_in_def)
next
  case (Some fs)
  show ?thesis
  proof (cases "fst (collection_group_stream fs)")
    case (Inl e)
    with Some show ?thesis
      by (simp add: load_and_reschedule_media_def load_and_reschedule_media_in_def)
  next
    case (Inr docs)
    obtain s lg n where r: "foldl (\<lambda>st doc. reschedule_doc main_globals bot_instance doc st)
                      (scheduler_instance, [LogLoading], 0) docs = (s, lg, n)"
      by (cases "foldl (\<lambda>st doc. reschedule_doc main_globals bot_instance doc st)
                      (scheduler_instance, [LogLoading], 0) docs") auto
    with foldl_reschedule_main [of bot_instance "(scheduler_instance, [LogLoading], 0)" docs]
    have "s = scheduler_instance" by simp
    with Some Inr r show ?thesis
      by (simp add: load_and_reschedule_media_def load_and_reschedule_media_in_def)
  qed
qed

theorem load_and_reschedule_media_registers_nothing_witness:
  "load_and_reschedule_media (PBot ''bot'') started_scheduler (Some store_abc123)
     = (started_scheduler,
        [LogLoading, LogRescheduleError (ascii ''abc123'') NameError, LogFinished 0])"
proof -
  have "snd (load_and_reschedule_media (PBot ''bot'') started_scheduler (Some store_abc123))
          = [LogLoading, LogRescheduleError (ascii ''abc123'') NameError, LogFinished 0]"
    using py_int_42 parse_0800
    by (simp add: load_and_reschedule_media_def load_and_reschedule_media_in_def
        collection_group_stream_def next_fault_def store_abc123_def reschedule_doc_def
        new_media_fields_def CronTrigger_unbound reschedule_failure_def)
  with load_and_reschedule_media_registers_nothing [of "PBot ''bot''" started_scheduler "Some store_abc123"]
  show ?thesis by (simp add: prod_eq_iff)
qed

text \<open>
  The other half of C2 holds: a record that is skipped never ends the scan. Every
  scanned document leaves exactly one log line, between the opening and the closing
  one, whatever the records before it were.
\<close>

lemma reschedule_doc_logs_once:
  "length (fst (snd (reschedule_doc g b d st))) = Suc (length (fst (snd st)))"
  by (cases st)
     (simp add: reschedule_doc_def Let_def
        split: option.splits pyval.splits prod.splits sum.splits)

lemma foldl_reschedule_logs:
  "length (fst (snd (foldl (\<lambda>st doc. reschedule_doc g b doc st) st docs)))
     = length (fst (snd st)) + length docs"
  by (induction docs arbitrary: st) (simp_all add: reschedule_doc_logs_once)

lemma scan_logs_every_document:
  assumes "fst (collection_group_stream fs) = Inr docs"
  shows "length (snd (load_and_reschedule_media_in g b s (Some fs))) = length docs + 2"
proof -
  obtain s' lg n where r: "foldl (\<lambda>st doc. reschedule_doc g b doc st) (s, [LogLoading], 0) docs = (s', lg, n)"
    by (cases "foldl (\<lambda>st doc. reschedule_doc g b doc st) (s, [LogLoading], 0) docs") auto
  from foldl_reschedule_logs [of g b "(s, [LogLoading], 0)" docs] r
  have "length lg = Suc (length docs)" by simp
  with assms r show ?thesis by (simp add: load_and_reschedule_media_in_def)
qed

subsection \<open>C3: running the startup scan twice\<close>

text \<open>
  C3. Over the same store snapshot, the scan run a second time on the scheduler the
  first run left yields the same list of job ids as the first run, and no id twice
  when the scheduler had none twice before. This holds in every module namespace: in
  one that binds \<open>CronTrigger\<close> because \<open>add_job\<close> replaces the job of an id that is
  already in the store, and in main.py's own, where no job is added at all. The
  scheduler \<^verbatim>\<open>main\<close> passes to the scan is started; on a started scheduler the
  scan leaves no job waiting outside the job store. Whether the scheduler is started
  or not, the ids of the jobs it holds after the second run are those it held after
  the first.
\<close>

theorem reconciliation_twice_as_once:
  "map job_id (jobs (fst (load_and_reschedule_media_in globals bot_instance
        (fst (load_and_reschedule_media_in globals bot_instance s firestore_db)) firestore_db)))
     = map job_id (jobs (fst (load_and_reschedule_media_in globals bot_instance s firestore_db)))
   \<and> (distinct (map job_id (jobs s)) \<longrightarrow>
        distinct (map job_id (jobs (fst (load_and_reschedule_media_in globals bot_instance
          (fst (load_and_reschedule_media_in globals bot_instance s firestore_db)) firestore_db)))))
   \<and> map job_id (jobs (fst (load_and_reschedule_media bot_instance
        (fst (load_and_reschedule_media bot_instance s firestore_db)) firestore_db)))
     = map job_id (jobs (fst (load_and_reschedule_media bot_instance s firestore_db)))
   \<and> (running s \<longrightarrow>
        pending (fst (load_and_reschedule_media_in globals bot_instance
          (fst (load_and_reschedule_media_in globals bot_instance s firestore_db)) firestore_db))
        = pending s)
   \<and> set (map job_id (held_jobs (fst (load_and_reschedule_media_in globals bot_instance
          (fst (load_and_reschedule_media_in globals bot_instance s firestore_db)) firestore_db))))
     = set (map job_id (held_jobs (fst (load_and_reschedule_media_in globals bot_instance s firestore_db))))"
proof -
  have twice: "map job_id (jobs (fst (load_and_reschedule_media_in g bot_instance
        (fst (load_and_reschedule_media_in g bot_instance s firestore_db)) firestore_db)))
     = map job_id (jobs (fst (load_and_reschedule_media_in g bot_instance s firestore_db)))" for g
  proof (cases "running s")
    case True
    then have "running (fst (load_and_reschedule_media_in g bot_instance s firestore_db))"
      by (simp add: load_running)
    from load_ids [OF this] load_ids [OF True] show ?thesis
      by (simp add: add_id_idem split: option.splits sum.splits)
  next
    case False
    then have "\<not> running (fst (load_and_reschedule_media_in g bot_instance s firestore_db))"
      by (simp add: load_running)
    from load_stopped [OF this] load_stopped [OF False] show ?thesis by simp
  qed
  have once: "distinct (map job_id (jobs s)) \<Longrightarrow>
      distinct (map job_id (jobs (fst (load_and_reschedule_media_in g bot_instance s firestore_db))))" for g
  proof (cases "running s")
    case True
    assume "distinct (map job_id (jobs s))"
    with load_ids [OF True] show ?thesis
      by (simp add: add_id_distinct split: option.splits sum.splits)
  next
    case False
    assume "distinct (map job_id (jobs s))"
    with load_stopped [OF False] show ?thesis by simp
  qed
  have waiting: "running s \<Longrightarrow>
        pending (fst (load_and_reschedule_media_in globals bot_instance
          (fst (load_and_reschedule_media_in globals bot_instance s firestore_db)) firestore_db))
        = pending s"
    by (simp add: load_pending load_running)
  from twice [of globals] twice [of main_globals] once [of globals] waiting
    load_held_ids_twice [of globals bot_instance s firestore_db]
  show ?thesis
    by (simp add: load_and_reschedule_media_def)
qed

theorem reconciliation_twice_as_once_witness:
  "distinct (map job_id (jobs started_scheduler)) \<and> running started_scheduler
   \<and> map job_id (jobs (fst (load_and_reschedule_media_in (''CronTrigger'' # main_globals) (PBot ''bot'')
          started_scheduler (Some store_abc123)))) = [ascii ''send_sch_abc123'']
   \<and> map job_id (jobs (fst (load_and_reschedule_media_in (''CronTrigger'' # main_globals) (PBot ''bot'')
          (fst (load_and_reschedule_media_in (''CronTrigger'' # main_globals) (PBot ''bot'')
             started_scheduler (Some store_abc123)))
          (Some store_abc123)))) = [ascii ''send_sch_abc123'']
   \<and> pending (fst (load_and_reschedule_media_in (''CronTrigger'' # main_globals) (PBot ''bot'')
          (fst (load_and_reschedule_media_in (''CronTrigger'' # main_globals) (PBot ''bot'')
             started_scheduler (Some store_abc123)))
          (Some store_abc123))) = []
   \<and> map job_id (jobs (fst (load_and_reschedule_media (PBot ''bot'')
          (fst (load_and_reschedule_media (PBot ''bot'') started_scheduler (Some store_abc123)))
          (Some store_abc123)))) = []"
proof -
  have d: "distinct (map job_id (jobs started_scheduler))" and r: "running started_scheduler"
    and p: "pending started_scheduler = []" and j: "jobs started_scheduler = []"
    by (simp_all add: started_scheduler_def)
  have once: "map job_id (jobs (fst (load_and_reschedule_media_in (''CronTrigger'' # main_globals) (PBot ''bot'')
          started_scheduler (Some store_abc123)))) = [ascii ''send_sch_abc123'']"
    using reschedulable_abc123 j
    by (simp add: load_ids [OF r] collection_group_stream_def next_fault_def store_abc123_def
        add_id_def send_job_id_def)
  have main_once: "map job_id (jobs (fst (load_and_reschedule_media (PBot ''bot'') started_scheduler
          (Some store_abc123)))) = []"
    using py_int_42 parse_0800 j
    by (simp add: load_and_reschedule_media_def load_ids [OF r] collection_group_stream_def
        next_fault_def store_abc123_def add_id_def reschedulable_def
        new_media_fields_def CronTrigger_unbound)
  from reconciliation_twice_as_once
    [of "''CronTrigger'' # main_globals" "PBot ''bot''" started_scheduler "Some store_abc123"]
    reconciliation_twice_as_once
    [of main_globals "PBot ''bot''" started_scheduler "Some store_abc123"]
    d r p once main_once
  show ?thesis by simp
qed

subsection \<open>C4: firing a send job\<close>

text \<open>
  C4 says that the fired job sends the stored media and never raises. The code does
  not: \<open>send_scheduled_media_job\<close> calls \<open>send_media_by_type\<close> with three arguments
  where its signature has four (\<open>bot_instance\<close> is missing), so every firing raises
  \<^verbatim>\<open>TypeError\<close> out of the job before anything is sent or logged.
\<close>

theorem send_scheduled_media_job_raises:
  "send_scheduled_media_job [bot_instance, user_id, chat_id, media_file_id, media_type, schedule_id] w
     = Raised TypeError w"
  by (simp add: send_scheduled_media_job_def send_media_by_type_def)

theorem send_scheduled_media_job_raises_witness:
  "fire job_abc123 world_abc123 = Raised TypeError world_abc123
   \<and> sent (transport world_abc123) = []"
  using send_scheduled_media_job_raises
    [of "PBot ''bot''" "PInt 42" "PInt 100" "PStr (ascii ''large'')" "PStr (ascii ''photo'')"
        "PStr (ascii ''abc123'')" world_abc123]
  by (simp add: fire_def job_abc123_def world_abc123_def quiet_transport_def)

subsection \<open>C5: cancelling an id the user does not own\<close>

text \<open>
  C5. When the id given to \<open>/cancel_schedule\<close> is not among the records the store
  holds for the requesting user (it may be another user's), the answer is "not found",
  the stored data is as before and the scheduler is as before: the owner's record and
  job stay.
\<close>

theorem cancel_of_unowned_id_changes_nothing:
  assumes "py_split_maxsplit1 (msg_text m) = [command, media_id]"
    and "\<not> owns (db w) (msg_from_user_id m) media_id"
  shows "\<exists>w'. process_cancel_schedule_id m w = Returned w'
           \<and> replies w' = replies w @ [NotFoundForUser media_id]
           \<and> stored_data (db w') = stored_data (db w)
           \<and> scheduler w' = scheduler w"
proof -
  obtain items db1 where g: "get_all_scheduled_media (db w) (msg_from_user_id m) = (items, db1)"
    by (cases "get_all_scheduled_media (db w) (msg_from_user_id m)") auto
  with assms(2) listed_iff_owns [of media_id "db w" "msg_from_user_id m"]
  have "\<not> list_ex (\<lambda>item. doc_id item = media_id) items" by auto
  moreover from g get_all_keeps_data [of "db w" "msg_from_user_id m"]
  have "stored_data db1 = stored_data (db w)" by simp
  ultimately show ?thesis
    using assms(1) g by (simp add: process_cancel_schedule_id_def reply_to_def)
qed

theorem cancel_of_unowned_id_changes_nothing_witness:
  "\<not> owns (db world_abc123) 43 (ascii ''abc123'')
   \<and> process_cancel_schedule_id (text_message 43 (ascii ''/cancel_schedule abc123'')) world_abc123
       = Returned (world_abc123\<lparr>replies := replies world_abc123 @ [NotFoundForUser (ascii ''abc123'')]\<rparr>)
   \<and> owns (db world_abc123) 42 (ascii ''abc123'')
   \<and> get_job (scheduler world_abc123) (ascii ''send_sch_abc123'') = Some job_abc123"
proof -
  have h1: "py_split_maxsplit1 (msg_text (text_message 43 (ascii ''/cancel_schedule abc123'')))
              = [ascii ''/cancel_schedule'', ascii ''abc123'']"
    using split_cancel_abc123 by simp
  have h2: "\<not> owns (db world_abc123)
               (msg_from_user_id (text_message 43 (ascii ''/cancel_schedule abc123''))) (ascii ''abc123'')"
    by (simp add: owns_def world_abc123_def store_abc123_def str_43)
  from cancel_of_unowned_id_changes_nothing [OF h1 h2]
  obtain w' where w': "process_cancel_schedule_id (text_message 43 (ascii ''/cancel_schedule abc123''))
        world_abc123 = Returned w'" by blast
  have ev: "process_cancel_schedule_id (text_message 43 (ascii ''/cancel_schedule abc123'')) world_abc123
       = Returned (world_abc123\<lparr>replies := replies world_abc123 @ [NotFoundForUser (ascii ''abc123'')]\<rparr>)"
    using split_cancel_abc123
    by (simp add: process_cancel_schedule_id_def get_all_scheduled_media_def
        collection_get_def next_fault_def world_abc123_def store_abc123_def str_43 reply_to_def
        Let_def)
  have "owns (db world_abc123) 42 (ascii ''abc123'')"
    by (simp add: owns_def world_abc123_def store_abc123_def str_42)
  moreover have "get_job (scheduler world_abc123) (ascii ''send_sch_abc123'') = Some job_abc123"
    by (simp add: get_job_def world_abc123_def job_abc123_def)
  ultimately show ?thesis using h2 ev w' by simp
qed

subsection \<open>C6: cancelling an owned id\<close>

text \<open>
  C6 as stated fails twice. The delete of db\_manager.py swallows the store's error,
  so when the delete raises the handler still answers "cancelled and removed", and
  logs nothing, while the record is still stored. And the job removal stands in the
  same \<^verbatim>\<open>try\<close> as the delete: when the removal raises, the handler logs the failure
  and also answers "failed to cancel".
\<close>

theorem cancel_reports_success_without_delete:
  "owns (db world_delete_fails) 42 (ascii ''abc123'')
   \<and> replies (outcome_state
         (process_cancel_schedule_id (text_message 42 (ascii ''/cancel_schedule abc123'')) world_delete_fails))
       = [CancelledAndRemoved (ascii ''abc123'')]
   \<and> log (outcome_state
         (process_cancel_schedule_id (text_message 42 (ascii ''/cancel_schedule abc123'')) world_delete_fails))
       = []
   \<and> owns (db (outcome_state
         (process_cancel_schedule_id (text_message 42 (ascii ''/cancel_schedule abc123'')) world_delete_fails)))
         42 (ascii ''abc123'')
   \<and> owns (db world_removal_fails) 42 (ascii ''abc123'')
   \<and> replies (outcome_state
         (process_cancel_schedule_id (text_message 42 (ascii ''/cancel_schedule abc123'')) world_removal_fails))
       = [FailedToCancel JobStoreError]
   \<and> log (outcome_state
         (process_cancel_schedule_id (text_message 42 (ascii ''/cancel_schedule abc123'')) world_removal_fails))
       = [LogCancelError (ascii ''abc123'') JobStoreError]"
  using split_cancel_abc123
  by (simp add: process_cancel_schedule_id_def get_all_scheduled_media_def
      collection_get_def next_fault_def world_delete_fails_def world_removal_fails_def
      world_abc123_def store_abc123_def str_42 reply_to_def owns_def
      logger_def delete_scheduled_media_def doc_delete_def send_job_id_def get_job_def
      remove_job_def job_abc123_def empty_scheduler_def Let_def)

text \<open>
  C6, amended. For an id the user owns and a store that works: the record is deleted
  before anything is answered. When the scheduler holds no job \<open>send_sch_\<close> + id,
  nothing is removed, nothing is logged, the scheduler is as before and the answer is
  success. When it holds the job and the removal succeeds, the job is taken out (of the
  job store of a running scheduler, of the waiting jobs of a stopped one), the removal
  is logged and the answer is success. When the removal raises, the jobs stay, the
  failure is logged and the answer is the failure.
\<close>

theorem cancel_of_owned_id:
  assumes args: "py_split_maxsplit1 (msg_text m) = [command, media_id]"
    and store: "db w = Some fs" "faults fs = []"
    and owned: "owns (db w) (msg_from_user_id m) media_id"
  shows "\<exists>w'. process_cancel_schedule_id m w = Returned w'
           \<and> \<not> owns (db w') (msg_from_user_id m) media_id
           \<and> replies w' = replies w @
                 [if get_job (scheduler w) (ascii ''send_sch_'' @ media_id) \<noteq> None
                       \<and> removal_raises (scheduler w)
                  then FailedToCancel JobStoreError else CancelledAndRemoved media_id]
           \<and> log w' = log w @
                 (if get_job (scheduler w) (ascii ''send_sch_'' @ media_id) = None then []
                  else if removal_raises (scheduler w) then [LogCancelError media_id JobStoreError]
                  else [LogRemovedJob (ascii ''send_sch_'' @ media_id)])
           \<and> jobs (scheduler w') =
                 (if running (scheduler w) \<and> \<not> removal_raises (scheduler w)
                  then filter (\<lambda>j. job_id j \<noteq> ascii ''send_sch_'' @ media_id) (jobs (scheduler w))
                  else jobs (scheduler w))
           \<and> pending (scheduler w') =
                 (if running (scheduler w) then pending (scheduler w)
                  else remove_first (\<lambda>p. job_id (fst p) = ascii ''send_sch_'' @ media_id)
                         (pending (scheduler w)))
           \<and> (get_job (scheduler w) (ascii ''send_sch_'' @ media_id) = None
                \<longrightarrow> scheduler w' = scheduler w)"
proof -
  define jid where "jid = ascii ''send_sch_'' @ media_id"
  from owned store have o: "owns (Some fs) (msg_from_user_id m) media_id" by simp
  note listed = owns_listed [OF o store(2)]
  note gone = delete_removes_record [OF store(2), of "msg_from_user_id m" media_id]
  have sj: "send_job_id media_id = jid"
    by (simp add: send_job_id_def jid_def)
  have "\<exists>w'. process_cancel_schedule_id m w = Returned w'
           \<and> \<not> owns (db w') (msg_from_user_id m) media_id
           \<and> replies w' = replies w @
                 [if get_job (scheduler w) jid \<noteq> None \<and> removal_raises (scheduler w)
                  then FailedToCancel JobStoreError else CancelledAndRemoved media_id]
           \<and> log w' = log w @
                 (if get_job (scheduler w) jid = None then []
                  else if removal_raises (scheduler w) then [LogCancelError media_id JobStoreError]
                  else [LogRemovedJob jid])
           \<and> jobs (scheduler w') =
                 (if running (scheduler w) \<and> \<not> removal_raises (scheduler w)
                  then filter (\<lambda>j. job_id j \<noteq> jid) (jobs (scheduler w))
                  else jobs (scheduler w))
           \<and> pending (scheduler w') =
                 (if running (scheduler w) then pending (scheduler w)
                  else remove_first (\<lambda>p. job_id (fst p) = jid) (pending (scheduler w)))
           \<and> (get_job (scheduler w) jid = None \<longrightarrow> scheduler w' = scheduler w)"
  proof (cases "get_job (scheduler w) jid")
    case None
    have same: "filter (\<lambda>j. job_id j \<noteq> jid) (jobs (scheduler w)) = jobs (scheduler w)"
      if "running (scheduler w)"
      using get_job_None_filter [OF None that] .
    have same': "remove_first (\<lambda>p. job_id (fst p) = jid) (pending (scheduler w)) = pending (scheduler w)"
      if "\<not> running (scheduler w)"
      using get_job_None_remove_first [OF None that] .
    from None args store listed gone sj same same' show ?thesis
      by (simp add: process_cancel_schedule_id_def reply_to_def Let_def)
  next
    case (Some j)
    show ?thesis
    proof (cases "removal_raises (scheduler w)")
      case True
      then obtain r where "running (scheduler w)" "removal_faults (scheduler w) = True # r"
        by (auto simp: removal_raises_def split: list.splits)
      with True Some args store listed gone sj show ?thesis
        by (simp add: process_cancel_schedule_id_def reply_to_def logger_def
            remove_job_def Let_def)
    next
      case False
      show ?thesis
      proof (cases "running (scheduler w)")
        case True
        with False Some have "remove_job (scheduler w) jid
                   = (None, (scheduler w)\<lparr>jobs := filter (\<lambda>j. job_id j \<noteq> jid) (jobs (scheduler w)),
                                         removal_faults := tl (removal_faults (scheduler w))\<rparr>)"
          by (auto simp: remove_job_def removal_raises_def split: list.splits bool.splits)
        with True False Some args store listed gone sj show ?thesis
          by (simp add: process_cancel_schedule_id_def reply_to_def logger_def Let_def)
      next
        case stopped: False
        with Some have "remove_job (scheduler w) jid
                   = (None, (scheduler w)\<lparr>pending :=
                        remove_first (\<lambda>p. job_id (fst p) = jid) (pending (scheduler w))\<rparr>)"
          by (simp add: remove_job_def)
        with stopped False Some args store listed gone sj show ?thesis
          by (simp add: process_cancel_schedule_id_def reply_to_def logger_def Let_def)
      qed
    qed
  qed
  then show ?thesis by (simp only: jid_def)
qed

theorem cancel_of_owned_id_witness:
  "owns (db world_abc123) 42 (ascii ''abc123'')
   \<and> process_cancel_schedule_id (text_message 42 (ascii ''/cancel_schedule abc123'')) world_abc123
       = Returned \<lparr>db = Some (store_abc123\<lparr>scheduled_media := []\<rparr>),
                   scheduler = empty_scheduler, transport = quiet_transport,
                   replies = [CancelledAndRemoved (ascii ''abc123'')],
                   log = [LogRemovedJob (ascii ''send_sch_abc123'')]\<rparr>
   \<and> process_cancel_schedule_id (text_message 42 (ascii ''/cancel_schedule abc123''))
         (world_abc123\<lparr>scheduler := empty_scheduler\<rparr>)
       = Returned \<lparr>db = Some (store_abc123\<lparr>scheduled_media := []\<rparr>),
                   scheduler = empty_scheduler, transport = quiet_transport,
                   replies = [CancelledAndRemoved (ascii ''abc123'')],
                   log = []\<rparr>
   \<and> process_cancel_schedule_id (text_message 42 (ascii ''/cancel_schedule abc123'')) world_removal_fails
       = Returned \<lparr>db = Some (store_abc123\<lparr>scheduled_media := []\<rparr>),
                   scheduler = \<lparr>running = True, jobs = [job_abc123], pending = [],
                                removal_faults = []\<rparr>,
                   transport = quiet_transport,
                   replies = [FailedToCancel JobStoreError],
                   log = [LogCancelError (ascii ''abc123'') JobStoreError]\<rparr>"
proof -
  have h2: "db world_abc123 = Some store_abc123" and h3: "faults store_abc123 = []"
    by (simp_all add: world_abc123_def store_abc123_def)
  have h4: "owns (db world_abc123)
              (msg_from_user_id (text_message 42 (ascii ''/cancel_schedule abc123''))) (ascii ''abc123'')"
    by (simp add: owns_def world_abc123_def store_abc123_def str_42)
  from cancel_of_owned_id [OF cancel_abc123_args h2 h3 h4]
  obtain w' where w': "process_cancel_schedule_id (text_message 42 (ascii ''/cancel_schedule abc123''))
      world_abc123 = Returned w'" by blast
  have e1: "process_cancel_schedule_id (text_message 42 (ascii ''/cancel_schedule abc123'')) world_abc123
       = Returned \<lparr>db = Some (store_abc123\<lparr>scheduled_media := []\<rparr>),
                   scheduler = empty_scheduler, transport = quiet_transport,
                   replies = [CancelledAndRemoved (ascii ''abc123'')],
                   log = [LogRemovedJob (ascii ''send_sch_abc123'')]\<rparr>"
    using split_cancel_abc123
    by (simp add: process_cancel_schedule_id_def get_all_scheduled_media_def
        collection_get_def next_fault_def world_abc123_def store_abc123_def str_42 reply_to_def
        logger_def delete_scheduled_media_def doc_delete_def send_job_id_def get_job_def
        remove_job_def job_abc123_def empty_scheduler_def Let_def)
  have e2: "process_cancel_schedule_id (text_message 42 (ascii ''/cancel_schedule abc123''))
         (world_abc123\<lparr>scheduler := empty_scheduler\<rparr>)
       = Returned \<lparr>db = Some (store_abc123\<lparr>scheduled_media := []\<rparr>),
                   scheduler = empty_scheduler, transport = quiet_transport,
                   replies = [CancelledAndRemoved (ascii ''abc123'')],
                   log = []\<rparr>"
    using split_cancel_abc123
    by (simp add: process_cancel_schedule_id_def get_all_scheduled_media_def
        collection_get_def next_fault_def world_abc123_def store_abc123_def str_42 reply_to_def
        logger_def delete_scheduled_media_def doc_delete_def send_job_id_def get_job_def
        remove_job_def job_abc123_def empty_scheduler_def Let_def)
  have e3: "process_cancel_schedule_id (text_message 42 (ascii ''/cancel_schedule abc123'')) world_removal_fails
       = Returned \<lparr>db = Some (store_abc123\<lparr>scheduled_media := []\<rparr>),
                   scheduler = \<lparr>running = True, jobs = [job_abc123], pending = [],
                                removal_faults = []\<rparr>,
                   transport = quiet_transport,
                   replies = [FailedToCancel JobStoreError],
                   log = [LogCancelError (ascii ''abc123'') JobStoreError]\<rparr>"
    using split_cancel_abc123
    by (simp add: process_cancel_schedule_id_def get_all_scheduled_media_def
        collection_get_def next_fault_def world_removal_fails_def world_abc123_def store_abc123_def
        str_42 reply_to_def logger_def delete_scheduled_media_def doc_delete_def send_job_id_def
        get_job_def remove_job_def job_abc123_def Let_def)
  from h4 e1 e2 e3 w' show ?thesis by simp
qed

subsection \<open>C7: a time that is not strict HH:MM\<close>

text \<open>
  C7 as stated fails: \<open>9:30\<close> is not strict HH:MM, yet \<open>/schedule_media 9:30\<close> is
  accepted (strptime takes a field without its leading zero): the idle user moves to
  \<open>waiting_for_scheduled_media\<close> with \<open>9:30\<close> stored.
\<close>

theorem schedule_media_accepts_single_digit_hour:
  "\<not> strict_HHMM (ascii ''9:30'')
   \<and> schedule_media_command (text_message 42 (ascii ''/schedule_media 9:30'')) idle fresh_world
       = Returned (awaiting_930, fresh_world\<lparr>replies := [ScheduleTimeAccepted (ascii ''9:30'')]\<rparr>)"
proof -
  have "\<not> strict_HHMM (ascii ''9:30'')"
    by (simp add: strict_HHMM_def)
  moreover have "schedule_media_command (text_message 42 (ascii ''/schedule_media 9:30'')) idle fresh_world
       = Returned (awaiting_930, fresh_world\<lparr>replies := [ScheduleTimeAccepted (ascii ''9:30'')]\<rparr>)"
    using split_schedule_930 strptime_930
    by (simp add: schedule_media_command_def idle_def awaiting_930_def fresh_world_def
        reply_to_def Let_def)
  ultimately show ?thesis by simp
qed

text \<open>
  C7, amended. For every argument of \<open>/schedule_media\<close> that strptime rejects under
  \<open>%H:%M\<close> (\<open>25:00\<close> and \<open>abc\<close> are rejected; every strict HH:MM time is accepted),
  the command answers with the validation error and changes nothing else: the user's
  state and stored data are as before (an idle user stays idle), and the scheduler and
  the store are untouched.
\<close>

theorem schedule_media_rejects_unparsed_time:
  assumes "2 \<le> length (py_split_maxsplit1 (msg_text m))"
    and "strptime_HM (py_split_maxsplit1 (msg_text m) ! 1) = None"
  shows "schedule_media_command m ctx w = Returned (ctx, w\<lparr>replies := replies w @ [InvalidTimeFormat]\<rparr>)"
  using assms by (simp add: schedule_media_command_def reply_to_def Let_def)

theorem schedule_media_rejects_unparsed_time_witness:
  "schedule_media_command (text_message 42 (ascii ''/schedule_media 25:00'')) idle fresh_world
     = Returned (idle, fresh_world\<lparr>replies := [InvalidTimeFormat]\<rparr>)"
proof -
  have h1: "2 \<le> length (py_split_maxsplit1 (msg_text (text_message 42 (ascii ''/schedule_media 25:00''))))"
    and h2: "strptime_HM (py_split_maxsplit1 (msg_text (text_message 42 (ascii ''/schedule_media 25:00''))) ! 1)
               = None"
    using split_schedule_2500 strptime_rejects(1) by simp_all
  from schedule_media_rejects_unparsed_time [OF h1 h2, of idle fresh_world]
  show ?thesis by (simp add: fresh_world_def)
qed

subsection \<open>C8: media messages while the delete timer is armed\<close>




subsection \<open>C9: the two delete-timer fields\<close>

text \<open>
  C9 says that \<open>/cancel_delete_timer\<close> removes both delete-timer fields from the
  persisted settings. The code does not: the handler deletes the two keys from the
  dictionary it read and writes the rest back with \<open>set(..., merge=True)\<close>, which
  leaves every stored field the dictionary does not name. The persisted settings are
  the same after the command as before it, for every store; the user is told that the
  timer is cancelled and the state is cleared.
\<close>

theorem cancel_delete_timer_keeps_persisted_settings:
  "map_option settings_docs (db (snd (outcome_state (cancel_delete_timer_command m ctx w))))
     = map_option settings_docs (db w)"
proof (cases "db w")
  case None
  then show ?thesis
    by (simp add: cancel_delete_timer_command_def get_user_settings_def update_user_settings_def
        reply_to_def)
next
  case (Some fs)
  obtain settings db1 where g: "get_user_settings (Some fs) (msg_from_user_id m) = (settings, db1)"
    by (cases "get_user_settings (Some fs) (msg_from_user_id m)") auto
  from get_user_settings_cases [OF g]
  have db1: "db1 = Some (snd (next_fault fs))"
    and st: "settings = Map.empty \<or> settings_docs fs (py_str_int (msg_from_user_id m)) = Some settings"
    by simp_all
  show ?thesis
  proof (cases "settings ''delete_timer_minutes''")
    case None
    with Some g db1 show ?thesis
      by (simp add: cancel_delete_timer_command_def reply_to_def)
  next
    case (Some v)
    with st have stored: "settings_docs fs (py_str_int (msg_from_user_id m)) = Some settings"
      by auto
    then have idem: "(settings_docs fs)(py_str_int (msg_from_user_id m) \<mapsto> settings) = settings_docs fs"
      by (simp add: fun_upd_idem)
    from Some \<open>db w = Some fs\<close> g db1 stored idem show ?thesis
      by (simp add: cancel_delete_timer_command_def reply_to_def update_user_settings_def
          doc_set_merge_settings merge_removed_keys Let_def)
  qed
qed

theorem cancel_delete_timer_keeps_persisted_settings_witness:
  "fst (outcome_state (cancel_delete_timer_command (text_message 42 (ascii ''/cancel_delete_timer'')) armed armed_world)) = idle
   \<and> replies (snd (outcome_state (cancel_delete_timer_command (text_message 42 (ascii ''/cancel_delete_timer'')) armed armed_world)))
       = [DeleteTimerCancelled]
   \<and> map_option settings_docs
         (db (snd (outcome_state (cancel_delete_timer_command (text_message 42 (ascii ''/cancel_delete_timer'')) armed armed_world))))
       = Some [ascii ''42'' \<mapsto> armed_settings]
   \<and> armed_settings ''delete_timer_minutes'' = Some (PInt 5)
   \<and> armed_settings ''delete_timer_active_chat_id'' = Some (PInt 100)"
proof -
  have g: "get_user_settings (Some armed_store) 42 = (armed_settings, Some armed_store)"
    by (simp add: get_user_settings_def doc_get_def next_fault_def armed_store_def str_42)
  have m: "armed_settings ''delete_timer_minutes'' = Some (PInt 5)"
    "armed_settings ''delete_timer_active_chat_id'' = Some (PInt 100)"
    by (simp_all add: armed_settings_def)
  have "fst (outcome_state (cancel_delete_timer_command (text_message 42 (ascii ''/cancel_delete_timer'')) armed armed_world)) = idle"
    "replies (snd (outcome_state (cancel_delete_timer_command (text_message 42 (ascii ''/cancel_delete_timer'')) armed armed_world)))
       = [DeleteTimerCancelled]"
    using g m
    by (simp_all add: cancel_delete_timer_command_def text_message_def armed_world_def reply_to_def
        state_clear_def idle_def Let_def)
  moreover have "map_option settings_docs (db armed_world) = Some [ascii ''42'' \<mapsto> armed_settings]"
    by (simp add: armed_world_def armed_store_def)
  ultimately show ?thesis
    using cancel_delete_timer_keeps_persisted_settings
      [of "text_message 42 (ascii ''/cancel_delete_timer'')" armed armed_world] m
    by simp
qed

text \<open>
  The setting half of C9 holds: with a working store, \<open>/set_delete_timer\<close> with a
  positive number writes both fields and arms the state.
\<close>

lemma set_delete_timer_writes_both:
  assumes "py_split_maxsplit1 (msg_text m) = [command, arg]" "py_int arg = Some minutes" "0 < minutes"
    and "db w = Some fs" "faults fs = []"
  shows "\<exists>ctx' w' fs' stored.
           set_delete_timer_command m ctx w = Returned (ctx', w')
         \<and> fsm_state ctx' = Some waiting_for_delete_duration
         \<and> db w' = Some fs'
         \<and> settings_docs fs' (py_str_int (msg_from_user_id m)) = Some stored
         \<and> stored ''delete_timer_minutes'' = Some (PInt minutes)
         \<and> stored ''delete_timer_active_chat_id'' = Some (PInt (msg_chat_id m))"
  using assms
  by (auto simp: set_delete_timer_command_def get_user_settings_def update_user_settings_def
      doc_get_def doc_set_merge_def next_fault_def reply_to_def Let_def
      split: option.splits)

subsection \<open>C10: the adapter under store failure\<close>

text \<open>
  C10. When the store client is unavailable or the store call raises,
  \<open>get_user_settings\<close> returns the empty dictionary, \<open>add_scheduled_media\<close> the empty
  string, \<open>get_all_scheduled_media\<close> the empty list, and \<open>update_user_settings\<close> and
  \<open>delete_scheduled_media\<close> return with the stored data as it was. No function of
  db\_manager.py has an exceptional outcome: each client call stands in a \<^verbatim>\<open>try\<close>
  that catches every exception. What the two queries answer is what they answer on a
  working store that holds no data for that user.
\<close>

theorem adapter_defaults_on_store_failure:
  assumes "store_fails client" and "holds_no_data blank user_id"
  shows "fst (get_user_settings client user_id) = Map.empty
       \<and> fst (add_scheduled_media client user_id chat_id message_id media_file_id media_type schedule_time) = []
       \<and> fst (get_all_scheduled_media client user_id) = []
       \<and> stored_data (snd (get_user_settings client user_id)) = stored_data client
       \<and> stored_data (snd (add_scheduled_media client user_id chat_id message_id media_file_id media_type schedule_time))
           = stored_data client
       \<and> stored_data (snd (get_all_scheduled_media client user_id)) = stored_data client
       \<and> stored_data (update_user_settings client user_id settings) = stored_data client
       \<and> stored_data (delete_scheduled_media client user_id media_id) = stored_data client
       \<and> fst (get_user_settings client user_id) = fst (get_user_settings (Some blank) user_id)
       \<and> fst (get_all_scheduled_media client user_id) = fst (get_all_scheduled_media (Some blank) user_id)"
proof -
  from assms(2) have blank:
    "fst (get_user_settings (Some blank) user_id) = Map.empty"
    "fst (get_all_scheduled_media (Some blank) user_id) = []"
    by (auto simp: holds_no_data_def store_fails_def get_user_settings_def doc_get_def
        get_all_scheduled_media_def collection_get_def next_fault_def split: list.splits)
  from assms(1) show ?thesis
  proof (cases rule: store_fails_cases)
    case unavailable
    with blank show ?thesis
      by (simp add: get_user_settings_def add_scheduled_media_def get_all_scheduled_media_def
          update_user_settings_def delete_scheduled_media_def stored_data_def)
  next
    case (raises fs r)
    with blank show ?thesis
      by (simp add: get_user_settings_def add_scheduled_media_def get_all_scheduled_media_def
          update_user_settings_def delete_scheduled_media_def stored_data_def
          doc_get_def collection_add_def collection_get_def doc_set_merge_def doc_delete_def
          next_fault_def)
  qed
qed

theorem adapter_defaults_on_store_failure_witness:
  "store_fails (Some failing_store) \<and> holds_no_data empty_store 42
   \<and> get_user_settings (Some failing_store) 42 = (Map.empty, Some store_abc123)
   \<and> get_all_scheduled_media (Some failing_store) 42 = ([], Some store_abc123)
   \<and> add_scheduled_media (Some failing_store) 42 100 7 (ascii ''large'') (ascii ''photo'') (ascii ''08:00'')
       = ([], Some store_abc123)
   \<and> update_user_settings (Some failing_store) 42 armed_settings = Some store_abc123
   \<and> delete_scheduled_media (Some failing_store) 42 (ascii ''abc123'') = Some store_abc123
   \<and> fst (get_user_settings (Some empty_store) 42) = Map.empty
   \<and> fst (get_all_scheduled_media (Some empty_store) 42) = []"
proof -
  have h1: "store_fails (Some failing_store)"
    by (simp add: store_fails_def failing_store_def)
  have h2: "holds_no_data empty_store 42"
    by (simp add: holds_no_data_def store_fails_def empty_store_def)
  have ev: "snd (get_user_settings (Some failing_store) 42) = Some store_abc123"
    "snd (get_all_scheduled_media (Some failing_store) 42) = Some store_abc123"
    "snd (add_scheduled_media (Some failing_store) 42 100 7 (ascii ''large'') (ascii ''photo'') (ascii ''08:00''))
       = Some store_abc123"
    "update_user_settings (Some failing_store) 42 armed_settings = Some store_abc123"
    "delete_scheduled_media (Some failing_store) 42 (ascii ''abc123'') = Some store_abc123"
    by (simp_all add: get_user_settings_def add_scheduled_media_def get_all_scheduled_media_def
          update_user_settings_def delete_scheduled_media_def
          doc_get_def collection_add_def collection_get_def doc_set_merge_def doc_delete_def
          next_fault_def failing_store_def store_abc123_def)
  note T = adapter_defaults_on_store_failure
    [OF h1 h2, of 100 7 "ascii ''large''" "ascii ''photo''" "ascii ''08:00''" armed_settings "ascii ''abc123''"]
  from T have f: "fst (get_user_settings (Some failing_store) 42) = Map.empty"
    "fst (add_scheduled_media (Some failing_store) 42 100 7 (ascii ''large'') (ascii ''photo'') (ascii ''08:00'')) = []"
    "fst (get_all_scheduled_media (Some failing_store) 42) = []"
    by blast+
  from T have "fst (get_user_settings (Some failing_store) 42) = fst (get_user_settings (Some empty_store) 42)"
    "fst (get_all_scheduled_media (Some failing_store) 42) = fst (get_all_scheduled_media (Some empty_store) 42)"
    by blast+
  with f have b: "fst (get_user_settings (Some empty_store) 42) = Map.empty"
    "fst (get_all_scheduled_media (Some empty_store) 42) = []"
    by simp_all
  from h1 h2 f ev b show ?thesis by (simp add: prod_eq_iff)
qed

end
